theory Spec2Isabelle
  imports Main "HOL-Library.AList"
begin

section \<open>Python values\<close>

text \<open>
  Tool results, tool arguments and backend parameters are dynamically typed in
  \<^verbatim>\<open>mcp_cog.py\<close>. A value is \<^verbatim>\<open>None\<close>, a bool, an int, a str, a list, a dict with
  string keys, or any other object (a float, an instance of a class). The code only ever
  asks two things of such an object, its truth value and its \<^verbatim>\<open>str()\<close>, so \<open>PObj\<close>
  carries exactly those two. A dict is an association list in insertion order.
\<close>

datatype pyval =
    PNone
  | PBool bool
  | PInt int
  | PStr string
  | PList "pyval list"
  | PDict "(string \<times> pyval) list"
  | PObj bool string

fun truthy :: "pyval \<Rightarrow> bool" where
  "truthy PNone = False"
| "truthy (PBool b) = b"
| "truthy (PInt i) = (i \<noteq> 0)"
| "truthy (PStr s) = (s \<noteq> [])"
| "truthy (PList xs) = (xs \<noteq> [])"
| "truthy (PDict kvs) = (kvs \<noteq> [])"
| "truthy (PObj t s) = t"

fun str_nat :: "nat \<Rightarrow> string" where
  "str_nat n =
     (if n < 10 then [''0123456789'' ! n]
      else str_nat (n div 10) @ [''0123456789'' ! (n mod 10)])"

declare str_nat.simps [simp del]

definition str_int :: "int \<Rightarrow> string" where
  "str_int i = (if i < 0 then ''-'' @ str_nat (nat (- i)) else str_nat (nat i))"

text \<open>
  \<^verbatim>\<open>str(v)\<close>. The text of a list or dict is Python's \<^verbatim>\<open>repr\<close> of the container, which
  the code never inspects: it is the parameter \<open>repr\<close>.
\<close>

fun py_str :: "(pyval \<Rightarrow> string) \<Rightarrow> pyval \<Rightarrow> string" where
  "py_str repr PNone = ''None''"
| "py_str repr (PBool b) = (if b then ''True'' else ''False'')"
| "py_str repr (PInt i) = str_int i"
| "py_str repr (PStr s) = s"
| "py_str repr (PObj t s) = s"
| "py_str repr (PList xs) = repr (PList xs)"
| "py_str repr (PDict kvs) = repr (PDict kvs)"

definition dq :: string where
  "dq = [CHR 0x22]"

section \<open>Registry and cog state\<close>

record ToolParameter =
  tp_name :: string
  parameter_type :: string
  tp_description :: string
  required :: bool
  default :: pyval
  enum :: "pyval list"

record ToolDef =
  td_name :: string
  td_description :: string
  parameters :: "ToolParameter list"

record ToolInvocationResult =
  content :: pyval
  error_code :: "int option"

text \<open>An \<^verbatim>\<open>MCPClient(url)\<close> handle; the code never looks inside it.\<close>

datatype MCPClient = MCPClient string

datatype role = System | User | Assistant | Tool

text \<open>An aggregated tool call \<^verbatim>\<open>{'id', 'type', 'function': {'name', 'arguments'}}\<close>.\<close>

record tool_call =
  tc_id :: "string option"
  tc_type :: string
  tc_name :: string
  tc_arguments :: string

text \<open>
  A history entry. \<open>msg_content = None\<close> is \<^verbatim>\<open>'content': None\<close>; \<open>tool_calls\<close>,
  \<open>tool_call_id\<close> and \<open>msg_name\<close> are \<open>None\<close> when the key is absent.
\<close>

record message =
  role :: role
  msg_content :: "string option"
  tool_calls :: "tool_call list option"
  tool_call_id :: "string option"
  msg_name :: "string option"

text \<open>
  The fields of \<^verbatim>\<open>MCPCog\<close> that the supervisor, the router and the turn engine read
  and write. The three dicts are association lists, since \<^verbatim>\<open>execute_tool\<close> iterates
  them in insertion order. \<open>max_history_length\<close> is
  \<^verbatim>\<open>config.get('max_history_length', 20)\<close>.
\<close>

record MCPCog =
  mcp_connections :: "(string \<times> MCPClient) list"
  mcp_tools :: "(string \<times> ToolDef list) list"
  message_history :: "(int \<times> message list) list"
  shutdown_event :: bool
  system_message :: string
  max_history_length :: int
  llm_chat_params :: "(string \<times> pyval) list"

text \<open>\<^verbatim>\<open>d[k] = v\<close>, \<^verbatim>\<open>if k in d: del d[k]\<close> and \<^verbatim>\<open>k in d\<close> on an insertion-ordered dict.\<close>

definition dict_set :: "'k \<Rightarrow> 'v \<Rightarrow> ('k \<times> 'v) list \<Rightarrow> ('k \<times> 'v) list" where
  "dict_set k v d = AList.update k v d"

definition dict_del :: "'k \<Rightarrow> ('k \<times> 'v) list \<Rightarrow> ('k \<times> 'v) list" where
  "dict_del k d = AList.delete k d"

definition dict_keys :: "('k \<times> 'v) list \<Rightarrow> 'k list" where
  "dict_keys d = map fst d"

definition dict_has :: "'k \<Rightarrow> ('k \<times> 'v) list \<Rightarrow> bool" where
  "dict_has k d = (k \<in> set (dict_keys d))"

section \<open>Tool router: \<^verbatim>\<open>execute_tool\<close>\<close>

text \<open>
  The value \<^verbatim>\<open>execute_tool\<close> returns: a \<^verbatim>\<open>ToolInvocationResult\<close> object, or a plain
  Python value (the error dict \<^verbatim>\<open>{'error': msg}\<close>).
\<close>

datatype tool_result = TIR ToolInvocationResult | PyVal pyval

definition error_dict :: "string \<Rightarrow> tool_result" where
  "error_dict msg = PyVal (PDict [(''error'', PStr msg)])"

text \<open>
  What \<^verbatim>\<open>await asyncio.wait_for(mcp_client.invoke_tool(...), timeout=120.0)\<close> does, by
  the \<^verbatim>\<open>except\<close> clause that handles it: it returns, it raises \<^verbatim>\<open>asyncio.TimeoutError\<close>,
  it raises one of the connection errors, or it raises another exception \<open>e\<close> (carrying
  \<^verbatim>\<open>str(e)\<close>).
\<close>

datatype invoke_outcome =
    Returned ToolInvocationResult
  | TimedOut
  | ConnFault
  | OtherError string

definition has_tool :: "string \<Rightarrow> ToolDef list \<Rightarrow> bool" where
  "has_tool tool_name tools = list_ex (\<lambda>t. td_name t = tool_name) tools"

text \<open>Lines 337-343: the first connected server whose tool list has the name.\<close>

fun find_client ::
  "string \<Rightarrow> (string \<times> ToolDef list) list \<Rightarrow> (string \<times> MCPClient) list
     \<Rightarrow> (string \<times> MCPClient) option" where
  "find_client tool_name tools [] = None"
| "find_client tool_name tools ((server_name, client) # rest) =
     (case map_of tools server_name of
        Some tds \<Rightarrow>
          if has_tool tool_name tds then Some (server_name, client)
          else find_client tool_name tools rest
      | None \<Rightarrow> find_client tool_name tools rest)"

text \<open>Lines 353-356: the first entry of \<^verbatim>\<open>mcp_tools\<close> that has the name.\<close>

fun find_origin :: "string \<Rightarrow> (string \<times> ToolDef list) list \<Rightarrow> string option" where
  "find_origin tool_name [] = None"
| "find_origin tool_name ((s_name, tools) # rest) =
     (if has_tool tool_name tools then Some s_name else find_origin tool_name rest)"

definition msg_no_servers :: "string \<Rightarrow> string" where
  "msg_no_servers tool_name =
     ''Tool '' @ dq @ tool_name @ dq @ '' cannot be executed: No MCP servers currently connected.''"

definition msg_unavailable :: "string \<Rightarrow> string \<Rightarrow> string" where
  "msg_unavailable tool_name origin =
     ''Tool '' @ dq @ tool_name @ dq @ '' exists (on server '' @ dq @ origin @ dq
       @ ''), but the server is currently disconnected or unavailable.''"

definition msg_mismatch :: "string \<Rightarrow> string" where
  "msg_mismatch tool_name =
     ''Internal state error: Tool '' @ dq @ tool_name @ dq @ '' found but client mismatch.''"

definition msg_not_found :: "string \<Rightarrow> string" where
  "msg_not_found tool_name =
     ''Tool '' @ dq @ tool_name @ dq @ '' not found on any configured and connected MCP server.''"

definition msg_timeout :: "string \<Rightarrow> string" where
  "msg_timeout tool_name = ''Tool call '' @ dq @ tool_name @ dq @ '' timed out.''"

definition msg_conn_error :: "string \<Rightarrow> string" where
  "msg_conn_error tool_name =
     ''Connection error executing tool '' @ dq @ tool_name @ dq
       @ ''. The server may be temporarily unavailable. Please try again.''"

definition msg_other_error :: "string \<Rightarrow> string \<Rightarrow> string" where
  "msg_other_error tool_name e = ''Error calling tool '' @ dq @ tool_name @ dq @ '': '' @ e"

definition msg_tool_reported :: "(pyval \<Rightarrow> string) \<Rightarrow> int \<Rightarrow> pyval \<Rightarrow> string" where
  "msg_tool_reported repr code c =
     ''Tool reported error code '' @ str_int code
       @ (if truthy c then '': '' @ py_str repr c else '''')"

text \<open>
  Lines 333-370, up to the \<^verbatim>\<open>await\<close>: either the error dict returned at once, or the
  client and server name the call goes to. An empty server name is falsy, so
  \<^verbatim>\<open>not server_name_found\<close> and \<^verbatim>\<open>if tool_server_origin\<close> treat it as missing.
\<close>

definition resolve_tool :: "string \<Rightarrow> MCPCog \<Rightarrow> tool_result + (MCPClient \<times> string)" where
  "resolve_tool tool_name cog =
     (case (case find_client tool_name (mcp_tools cog) (mcp_connections cog) of
              Some (server_name_found, mcp_client) \<Rightarrow>
                if server_name_found \<noteq> [] then Some (mcp_client, server_name_found) else None
            | None \<Rightarrow> None) of
        Some found \<Rightarrow> Inr found
      | None \<Rightarrow>
          if mcp_connections cog = [] then Inl (error_dict (msg_no_servers tool_name))
          else
            (case find_origin tool_name (mcp_tools cog) of
               Some tool_server_origin \<Rightarrow>
                 if tool_server_origin \<noteq> []
                    \<and> \<not> dict_has tool_server_origin (mcp_connections cog)
                   then Inl (error_dict (msg_unavailable tool_name tool_server_origin))
                 else if tool_server_origin \<noteq> []
                   then Inl (error_dict (msg_mismatch tool_name))
                 else Inl (error_dict (msg_not_found tool_name))
             | None \<Rightarrow> Inl (error_dict (msg_not_found tool_name))))"

text \<open>
  Lines 380-409, after the \<^verbatim>\<open>await\<close>: the outcome of the call is classified, and a
  connection error deletes the server from both dicts of the cog as it is then.
\<close>

definition finish_tool ::
  "(pyval \<Rightarrow> string) \<Rightarrow> string \<Rightarrow> string \<Rightarrow> invoke_outcome \<Rightarrow> MCPCog \<Rightarrow> tool_result \<times> MCPCog" where
  "finish_tool repr tool_name server_name_found outcome cog =
     (case outcome of
        Returned result \<Rightarrow>
          (case error_code result of
             None \<Rightarrow> (TIR result, cog)
           | Some code \<Rightarrow>
               if code \<noteq> 0
                 then (error_dict (msg_tool_reported repr code (content result)), cog)
               else (TIR result, cog))
      | TimedOut \<Rightarrow> (error_dict (msg_timeout tool_name), cog)
      | ConnFault \<Rightarrow>
          (error_dict (msg_conn_error tool_name),
           cog\<lparr>mcp_connections := dict_del server_name_found (mcp_connections cog),
               mcp_tools := dict_del server_name_found (mcp_tools cog)\<rparr>)
      | OtherError e \<Rightarrow> (error_dict (msg_other_error tool_name e), cog))"

text \<open>
  The whole of \<^verbatim>\<open>execute_tool\<close> when nothing else runs during the \<^verbatim>\<open>await\<close>.
  \<open>invoke client tool_name tool_input\<close> is the outcome of the remote call.
\<close>

definition execute_tool ::
  "(pyval \<Rightarrow> string) \<Rightarrow> (MCPClient \<Rightarrow> string \<Rightarrow> pyval \<Rightarrow> invoke_outcome)
     \<Rightarrow> string \<Rightarrow> pyval \<Rightarrow> MCPCog \<Rightarrow> tool_result \<times> MCPCog" where
  "execute_tool repr invoke tool_name tool_input cog =
     (case resolve_tool tool_name cog of
        Inl err \<Rightarrow> (err, cog)
      | Inr (mcp_client, server_name_found) \<Rightarrow>
          finish_tool repr tool_name server_name_found
            (invoke mcp_client tool_name tool_input) cog)"

section \<open>Result formatting: \<^verbatim>\<open>format_calltoolresult_content\<close>\<close>

definition msg_no_content :: string where
  "msg_no_content = ''Tool executed successfully but returned no content.''"

text \<open>
  \<^verbatim>\<open>json.dumps(content, indent=2)\<close> is the parameter \<open>dumps\<close>; \<open>None\<close> is its
  \<^verbatim>\<open>TypeError\<close>, which the code catches and answers with \<^verbatim>\<open>str(content)\<close>.
\<close>

definition format_json :: "(pyval \<Rightarrow> string) \<Rightarrow> (pyval \<Rightarrow> string option) \<Rightarrow> pyval \<Rightarrow> string" where
  "format_json repr dumps c = (case dumps c of Some s \<Rightarrow> s | None \<Rightarrow> py_str repr c)"

definition format_unexpected :: "(pyval \<Rightarrow> string) \<Rightarrow> pyval \<Rightarrow> string" where
  "format_unexpected repr v = ''Unexpected tool result format: '' @ take 200 (py_str repr v)"

fun format_content :: "(pyval \<Rightarrow> string) \<Rightarrow> (pyval \<Rightarrow> string option) \<Rightarrow> pyval \<Rightarrow> string" where
  "format_content repr dumps PNone = msg_no_content"
| "format_content repr dumps (PDict kvs) =
     (if map_of kvs ''type'' = Some (PStr ''text'') \<and> dict_has ''text'' kvs then
        (case map_of kvs ''text'' of
           Some PNone \<Rightarrow> ''''
         | Some text_content \<Rightarrow> py_str repr text_content
         | None \<Rightarrow> '''')
      else format_json repr dumps (PDict kvs))"
| "format_content repr dumps (PList xs) = format_json repr dumps (PList xs)"
| "format_content repr dumps (PStr s) = py_str repr (PStr s)"
| "format_content repr dumps (PInt i) = py_str repr (PInt i)"
| "format_content repr dumps (PBool b) = py_str repr (PBool b)"
| "format_content repr dumps (PObj t s) = py_str repr (PObj t s)"

fun format_calltoolresult_content ::
  "(pyval \<Rightarrow> string) \<Rightarrow> (pyval \<Rightarrow> string option) \<Rightarrow> tool_result \<Rightarrow> string" where
  "format_calltoolresult_content repr dumps (TIR result) =
     format_content repr dumps (content result)"
| "format_calltoolresult_content repr dumps (PyVal (PDict kvs)) =
     (case map_of kvs ''error'' of
        Some e \<Rightarrow> ''Tool Error: '' @ py_str repr e
      | None \<Rightarrow> format_unexpected repr (PDict kvs))"
| "format_calltoolresult_content repr dumps (PyVal v) = format_unexpected repr v"

section \<open>Conversation history: \<^verbatim>\<open>get_channel_history\<close>\<close>

datatype py_error = IndexError

definition system_entry :: "string \<Rightarrow> message" where
  "system_entry sm =
     \<lparr>role = System, msg_content = Some sm, tool_calls = None, tool_call_id = None,
      msg_name = None\<rparr>"

text \<open>An entry \<^verbatim>\<open>{'role': r, 'content': c}\<close> with no other key.\<close>

definition plain_entry :: "role \<Rightarrow> string \<Rightarrow> message" where
  "plain_entry r c =
     \<lparr>role = r, msg_content = Some c, tool_calls = None, tool_call_id = None, msg_name = None\<rparr>"

text \<open>
  Lines 455-475. The function returns the list stored under the channel, and stores a
  new list when it initialises or trims. \<^verbatim>\<open>h[0]\<close> of an empty list raises
  \<^verbatim>\<open>IndexError\<close>; \<^verbatim>\<open>h[amount_to_remove + 1:]\<close> has a positive start there, so it drops
  that many entries.
\<close>

definition get_channel_history :: "int \<Rightarrow> MCPCog \<Rightarrow> py_error + (message list \<times> MCPCog)" where
  "get_channel_history channel_id cog =
     (case map_of (message_history cog) channel_id of
        None \<Rightarrow>
          (let h = [system_entry (system_message cog)]
           in Inr (h, cog\<lparr>message_history := dict_set channel_id h (message_history cog)\<rparr>))
      | Some h \<Rightarrow>
          (let current_len = int (length h);
               target_len = max_history_length cog + 1
           in if current_len > target_len then
                (let amount_to_remove = current_len - target_len
                 in case h of
                      [] \<Rightarrow> Inl IndexError
                    | h0 # _ \<Rightarrow>
                        (let h' = [h0] @ drop (nat (amount_to_remove + 1)) h
                         in Inr (h', cog\<lparr>message_history :=
                                          dict_set channel_id h' (message_history cog)\<rparr>)))
              else Inr (h, cog)))"

section \<open>Streaming aggregation of tool calls\<close>

text \<open>
  A \<^verbatim>\<open>ChoiceDeltaToolCall\<close> with its optional \<^verbatim>\<open>function\<close>, and a \<^verbatim>\<open>ChoiceDelta\<close>. An
  element of the stream is \<open>None\<close> when the chunk has no choices or no delta.
\<close>

record function_chunk =
  fc_name :: "string option"
  fc_arguments :: "string option"

record tool_call_chunk =
  index :: int
  chunk_id :: "string option"
  chunk_function :: "function_chunk option"

record ChoiceDelta =
  delta_content :: "string option"
  delta_tool_calls :: "tool_call_chunk list option"

definition empty_slot :: tool_call where
  "empty_slot = \<lparr>tc_id = None, tc_type = ''function'', tc_name = '''', tc_arguments = ''''\<rparr>"

text \<open>\<^verbatim>\<open>while len(current_tool_calls) <= idx: current_tool_calls.append({...})\<close>\<close>

definition pad_slots :: "int \<Rightarrow> tool_call list \<Rightarrow> tool_call list" where
  "pad_slots idx slots = slots @ replicate (nat (idx + 1) - length slots) empty_slot"

text \<open>The position \<^verbatim>\<open>xs[idx]\<close> reads in a list of length \<open>n\<close>; a negative index counts from the end.\<close>

definition py_pos :: "int \<Rightarrow> nat \<Rightarrow> nat option" where
  "py_pos idx n =
     (if 0 \<le> idx \<and> idx < int n then Some (nat idx)
      else if idx < 0 \<and> - idx \<le> int n then Some (nat (int n + idx))
      else None)"

definition or_empty :: "string option \<Rightarrow> string" where
  "or_empty s = (case s of Some t \<Rightarrow> t | None \<Rightarrow> '''')"

text \<open>Lines 626-633: one \<^verbatim>\<open>tool_call_chunk\<close> of a delta.\<close>

definition apply_chunk :: "tool_call_chunk \<Rightarrow> tool_call list \<Rightarrow> py_error + tool_call list" where
  "apply_chunk ch current_tool_calls =
     (let idx = index ch;
          slots = pad_slots idx current_tool_calls
      in case py_pos idx (length slots) of
           None \<Rightarrow> Inl IndexError
         | Some i \<Rightarrow>
             (let tc_ref = slots ! i;
                  tc1 = (if or_empty (chunk_id ch) \<noteq> [] then tc_ref\<lparr>tc_id := chunk_id ch\<rparr>
                         else tc_ref);
                  tc2 = (case chunk_function ch of
                           None \<Rightarrow> tc1
                         | Some chunk_func \<Rightarrow>
                             (let tc1n = (if or_empty (fc_name chunk_func) \<noteq> []
                                          then tc1\<lparr>tc_name :=
                                                   tc_name tc1 @ or_empty (fc_name chunk_func)\<rparr>
                                          else tc1)
                              in if or_empty (fc_arguments chunk_func) \<noteq> []
                                 then tc1n\<lparr>tc_arguments :=
                                             tc_arguments tc1n @ or_empty (fc_arguments chunk_func)\<rparr>
                                 else tc1n))
              in Inr (slots[i := tc2])))"

fun apply_chunks :: "tool_call_chunk list \<Rightarrow> tool_call list \<Rightarrow> py_error + tool_call list" where
  "apply_chunks [] slots = Inr slots"
| "apply_chunks (ch # chs) slots =
     (case apply_chunk ch slots of Inl e \<Rightarrow> Inl e | Inr slots' \<Rightarrow> apply_chunks chs slots')"

text \<open>Lines 620-633: the loop over the stream, from the text and slots so far.\<close>

fun aggregate_stream ::
  "ChoiceDelta option list \<Rightarrow> string \<times> tool_call list \<Rightarrow> py_error + (string \<times> tool_call list)" where
  "aggregate_stream [] acc = Inr acc"
| "aggregate_stream (None # chunks) acc = aggregate_stream chunks acc"
| "aggregate_stream (Some delta # chunks) (initial_response_content, current_tool_calls) =
     (let text = initial_response_content @ or_empty (delta_content delta)
      in case apply_chunks (case delta_tool_calls delta of Some tcs \<Rightarrow> tcs | None \<Rightarrow> [])
                current_tool_calls of
           Inl e \<Rightarrow> Inl e
         | Inr slots \<Rightarrow> aggregate_stream chunks (text, slots))"

text \<open>Line 634: \<^verbatim>\<open>[tc for tc in current_tool_calls if tc.get('id') and tc['function'].get('name')]\<close>\<close>

definition finalize_tool_calls :: "tool_call list \<Rightarrow> tool_call list" where
  "finalize_tool_calls current_tool_calls =
     filter (\<lambda>tc. or_empty (tc_id tc) \<noteq> [] \<and> tc_name tc \<noteq> []) current_tool_calls"

subsection \<open>The aggregation rule, slot by slot\<close>

text \<open>
  What the aggregation rule says of slot \<open>i\<close> after the fragments \<open>frs\<close>: its name and
  arguments are the fragments' texts for that slot in order, its id is the last non-empty
  id a fragment for that slot gave, and there are as many slots as the largest index
  needs.
\<close>

definition frag_name :: "tool_call_chunk \<Rightarrow> string" where
  "frag_name f = (case chunk_function f of Some fc \<Rightarrow> or_empty (fc_name fc) | None \<Rightarrow> '''')"

definition frag_arguments :: "tool_call_chunk \<Rightarrow> string" where
  "frag_arguments f =
     (case chunk_function f of Some fc \<Rightarrow> or_empty (fc_arguments fc) | None \<Rightarrow> '''')"

definition frags_for :: "tool_call_chunk list \<Rightarrow> nat \<Rightarrow> tool_call_chunk list" where
  "frags_for frs i = filter (\<lambda>f. index f = int i) frs"

definition last_id :: "tool_call_chunk list \<Rightarrow> string option" where
  "last_id frs =
     (case filter (\<lambda>s. s \<noteq> []) (map (\<lambda>f. or_empty (chunk_id f)) frs) of
        [] \<Rightarrow> None
      | s # ids \<Rightarrow> Some (last (s # ids)))"

definition slot_of :: "tool_call_chunk list \<Rightarrow> nat \<Rightarrow> tool_call" where
  "slot_of frs i =
     \<lparr>tc_id = last_id (frags_for frs i), tc_type = ''function'',
      tc_name = concat (map frag_name (frags_for frs i)),
      tc_arguments = concat (map frag_arguments (frags_for frs i))\<rparr>"

definition slot_count :: "tool_call_chunk list \<Rightarrow> nat" where
  "slot_count frs = fold (\<lambda>f n. max n (nat (index f + 1))) frs 0"

definition slot_table :: "tool_call_chunk list \<Rightarrow> tool_call list" where
  "slot_table frs = map (slot_of frs) [0..<slot_count frs]"

definition stream_fragments :: "ChoiceDelta option list \<Rightarrow> tool_call_chunk list" where
  "stream_fragments chunks =
     concat (map (\<lambda>c. case c of
                         Some delta \<Rightarrow> (case delta_tool_calls delta of Some tcs \<Rightarrow> tcs | None \<Rightarrow> [])
                       | None \<Rightarrow> []) chunks)"

definition stream_text :: "ChoiceDelta option list \<Rightarrow> string" where
  "stream_text chunks =
     concat (map (\<lambda>c. case c of Some delta \<Rightarrow> or_empty (delta_content delta) | None \<Rightarrow> '''') chunks)"

text \<open>Lines 619-634 as one function: the text and the finalized tool calls of a stream.\<close>

definition aggregate_streamed_response ::
  "ChoiceDelta option list \<Rightarrow> py_error + (string \<times> tool_call list)" where
  "aggregate_streamed_response chunks =
     (case aggregate_stream chunks ('''', []) of
        Inl e \<Rightarrow> Inl e
      | Inr (initial_response_content, current_tool_calls) \<Rightarrow>
          Inr (initial_response_content, finalize_tool_calls current_tool_calls))"

text \<open>
  The stream of the example: slot 0 gets id \<^verbatim>\<open>a\<close>, the name in the parts \<^verbatim>\<open>get\<close>,
  \<^verbatim>\<open>Weather\<close> and the arguments in two parts; slot 1 gets a name and never an id.
\<close>

definition example_stream :: "ChoiceDelta option list" where
  "example_stream =
     [Some \<lparr>delta_content = None, delta_tool_calls = Some
        [\<lparr>index = 0, chunk_id = Some ''a'', chunk_function = Some
            \<lparr>fc_name = Some ''get'', fc_arguments = Some (''{'' @ dq @ ''city'' @ dq @ '':'')\<rparr>\<rparr>]\<rparr>,
      None,
      Some \<lparr>delta_content = None, delta_tool_calls = Some
        [\<lparr>index = 1, chunk_id = None, chunk_function = Some
            \<lparr>fc_name = Some ''lookup'', fc_arguments = None\<rparr>\<rparr>]\<rparr>,
      Some \<lparr>delta_content = None, delta_tool_calls = Some
        [\<lparr>index = 0, chunk_id = None, chunk_function = Some
            \<lparr>fc_name = Some ''Weather'', fc_arguments = Some (dq @ ''NY'' @ dq @ ''}'')\<rparr>\<rparr>]\<rparr>]"

definition example_tool_call :: tool_call where
  "example_tool_call =
     \<lparr>tc_id = Some ''a'', tc_type = ''function'', tc_name = ''getWeather'',
      tc_arguments = ''{'' @ dq @ ''city'' @ dq @ '':'' @ dq @ ''NY'' @ dq @ ''}''\<rparr>"

text \<open>
  Two streams with a fragment addressed to index -1: after a fragment for slot 0, and
  alone.
\<close>

definition neg_stream :: "ChoiceDelta option list" where
  "neg_stream =
     [Some \<lparr>delta_content = None, delta_tool_calls = Some
        [\<lparr>index = 0, chunk_id = Some ''a'', chunk_function = Some
            \<lparr>fc_name = Some ''get'', fc_arguments = None\<rparr>\<rparr>,
         \<lparr>index = - 1, chunk_id = Some ''b'', chunk_function = Some
            \<lparr>fc_name = Some ''X'', fc_arguments = None\<rparr>\<rparr>]\<rparr>]"

definition neg_only_stream :: "ChoiceDelta option list" where
  "neg_only_stream =
     [Some \<lparr>delta_content = None, delta_tool_calls = Some
        [\<lparr>index = - 1, chunk_id = Some ''b'', chunk_function = Some
            \<lparr>fc_name = Some ''X'', fc_arguments = None\<rparr>\<rparr>]\<rparr>]"

section \<open>Connection supervisor: \<^verbatim>\<open>_manage_mcp_connection\<close>\<close>

text \<open>
  The task of one server, between its suspension points. \<open>Connecting\<close>: the attempt of
  lines 184-191 is under way (\<^verbatim>\<open>MCPClient(url)\<close>, then \<^verbatim>\<open>await wait_for(list_tools, 45)\<close>).
  \<open>Ready\<close>: suspended in \<^verbatim>\<open>await self._shutdown_event.wait()\<close>, line 203. \<open>Backoff\<close>:
  suspended in \<^verbatim>\<open>await wait_for(self._shutdown_event.wait(), timeout=reconnect_delay)\<close>,
  line 233. \<open>Finished\<close>: the coroutine has returned. \<open>waits\<close> lists the delays of line
  231-233, in order.
\<close>

datatype sup_pc = Connecting | Ready | Backoff | Finished

record supervisor =
  pc :: sup_pc
  reconnect_delay :: int
  waits :: "int list"

definition max_reconnect_delay :: int where
  "max_reconnect_delay = 300"

text \<open>Lines 221-226 and again 244-245: the server leaves both dicts.\<close>

definition cleanup :: "string \<Rightarrow> MCPCog \<Rightarrow> MCPCog" where
  "cleanup name cog =
     cog\<lparr>mcp_connections := dict_del name (mcp_connections cog),
         mcp_tools := dict_del name (mcp_tools cog)\<rparr>"

text \<open>Line 177: the loop test; when it fails, lines 242-247 run and the task ends.\<close>

definition loop_head :: "string \<Rightarrow> supervisor \<times> MCPCog \<Rightarrow> supervisor \<times> MCPCog" where
  "loop_head name st =
     (case st of (sv, cog) \<Rightarrow>
        if shutdown_event cog then (sv\<lparr>pc := Finished\<rparr>, cleanup name cog)
        else (sv\<lparr>pc := Connecting\<rparr>, cog))"

text \<open>Lines 219-233: cleanup, then either the wait before the retry or the loop test.\<close>

definition cleanup_and_wait :: "string \<Rightarrow> supervisor \<times> MCPCog \<Rightarrow> supervisor \<times> MCPCog" where
  "cleanup_and_wait name st =
     (case st of (sv, cog) \<Rightarrow>
        (let cog1 = cleanup name cog
         in if \<not> shutdown_event cog1
            then (sv\<lparr>pc := Backoff, waits := waits sv @ [reconnect_delay sv]\<rparr>, cog1)
            else loop_head name (sv, cog1)))"

text \<open>
  What ends a suspension. \<open>AttemptDone\<close>: the attempt returned the tool list, or raised
  one of the exceptions of lines 207-210 and 214 (\<open>Failed\<close>). \<open>EventSet\<close>: the wait on
  the shutdown event returned, which only \<^verbatim>\<open>self._shutdown_event.set()\<close> brings about; the
  code then goes on without looking at the flag again before line 230 (after line 203)
  or at all (after line 233, where it breaks). \<open>DelayElapsed\<close>: the \<^verbatim>\<open>wait_for\<close> of line
  233 timed out. \<open>Cancelled\<close>: the task was cancelled.
\<close>

datatype attempt = Listed "ToolDef list" | Failed

datatype sup_event = AttemptDone attempt | EventSet | DelayElapsed | Cancelled

fun supervisor_at ::
  "string \<Rightarrow> string \<Rightarrow> sup_pc \<Rightarrow> sup_event \<Rightarrow> supervisor \<times> MCPCog \<Rightarrow> supervisor \<times> MCPCog" where
  "supervisor_at url name Finished ev (sv, cog) = (sv, cog)"
| "supervisor_at url name p Cancelled (sv, cog) = (sv\<lparr>pc := Finished\<rparr>, cleanup name cog)"
| "supervisor_at url name Connecting (AttemptDone (Listed tools_list)) (sv, cog) =
     (let cog1 = cog\<lparr>mcp_connections := dict_set name (MCPClient url) (mcp_connections cog),
                     mcp_tools := dict_set name tools_list (mcp_tools cog)\<rparr>;
          sv1 = sv\<lparr>reconnect_delay := 15\<rparr>
      in if shutdown_event cog1 then cleanup_and_wait name (sv1, cog1)
         else (sv1\<lparr>pc := Ready\<rparr>, cog1))"
| "supervisor_at url name Connecting (AttemptDone Failed) (sv, cog) =
     cleanup_and_wait name (sv, cog)"
| "supervisor_at url name Ready EventSet (sv, cog) = cleanup_and_wait name (sv, cog)"
| "supervisor_at url name Backoff EventSet (sv, cog) = (sv\<lparr>pc := Finished\<rparr>, cleanup name cog)"
| "supervisor_at url name Backoff DelayElapsed (sv, cog) =
     loop_head name
       (sv\<lparr>reconnect_delay := min (reconnect_delay sv * 2) max_reconnect_delay\<rparr>, cog)"
| "supervisor_at url name p ev (sv, cog) = (sv, cog)"

definition supervisor_step ::
  "string \<Rightarrow> string \<Rightarrow> sup_event \<Rightarrow> supervisor \<times> MCPCog \<Rightarrow> supervisor \<times> MCPCog" where
  "supervisor_step url name ev st = supervisor_at url name (pc (fst st)) ev st"

text \<open>Lines 174-177: the task starts with delay 15 at the loop test.\<close>

definition supervisor_start :: "string \<Rightarrow> MCPCog \<Rightarrow> supervisor \<times> MCPCog" where
  "supervisor_start name cog =
     loop_head name (\<lparr>pc = Connecting, reconnect_delay = 15, waits = []\<rparr>, cog)"

fun supervisor_run ::
  "string \<Rightarrow> string \<Rightarrow> sup_event list \<Rightarrow> supervisor \<times> MCPCog \<Rightarrow> supervisor \<times> MCPCog" where
  "supervisor_run url name [] st = st"
| "supervisor_run url name (ev # evs) st =
     supervisor_run url name evs (supervisor_step url name ev st)"

text \<open>\<^verbatim>\<open>cog_unload\<close>: line 289 sets the event; lines 321-322 clear both dicts.\<close>

definition cog_unload_signal :: "MCPCog \<Rightarrow> MCPCog" where
  "cog_unload_signal cog = cog\<lparr>shutdown_event := True\<rparr>"

definition cog_unload_clear :: "MCPCog \<Rightarrow> MCPCog" where
  "cog_unload_clear cog = cog\<lparr>mcp_connections := [], mcp_tools := []\<rparr>"

text \<open>The servers with a connection are the servers with a tool list.\<close>

definition registry_aligned :: "MCPCog \<Rightarrow> bool" where
  "registry_aligned cog =
     (set (dict_keys (mcp_connections cog)) = set (dict_keys (mcp_tools cog)))"

section \<open>Schema formatter: \<^verbatim>\<open>format_tools_for_openai\<close>\<close>

text \<open>\<^verbatim>\<open>str.lower()\<close> on the ASCII letters.\<close>

definition lower_char :: "char \<Rightarrow> char" where
  "lower_char c =
     (let n = (of_char c :: nat) in if 65 \<le> n \<and> n \<le> 90 then char_of (n + 32) else c)"

definition map_mcp_type_to_json_type :: "string \<Rightarrow> string" where
  "map_mcp_type_to_json_type mcp_type =
     (let t = map lower_char mcp_type
      in if t \<in> set [''string'', ''integer'', ''number'', ''boolean'', ''array'', ''object'']
         then t else ''string'')"

text \<open>
  Lines 524-547. An absent or empty description, enum or default is the empty string,
  the empty list or \<open>PNone\<close>.
\<close>

definition param_schema :: "ToolParameter \<Rightarrow> (string \<times> pyval) list" where
  "param_schema param =
     (let t = map_mcp_type_to_json_type (parameter_type param);
          s0 = [(''type'', PStr t),
                (''description'',
                 PStr (if tp_description param \<noteq> [] then tp_description param
                       else ''Parameter '' @ tp_name param))];
          s1 = (if enum param \<noteq> [] then dict_set ''enum'' (PList (enum param)) s0 else s0);
          s2 = (if default param \<noteq> PNone then dict_set ''default'' (default param) s1 else s1);
          s3 = (if t = ''array''
                then dict_set ''items'' (PDict [(''type'', PStr ''string'')]) s2 else s2)
      in if t = ''object'' then dict_set ''properties'' (PDict []) s3 else s3)"

text \<open>Lines 519-554: the loop over the parameters of one tool.\<close>

fun tool_properties ::
  "ToolParameter list \<Rightarrow> (string \<times> pyval) list \<Rightarrow> string list
     \<Rightarrow> (string \<times> pyval) list \<times> string list" where
  "tool_properties [] properties required_params = (properties, required_params)"
| "tool_properties (param # ps) properties required_params =
     (if tp_name param = [] then tool_properties ps properties required_params
      else tool_properties ps
             (dict_set (tp_name param) (PDict (param_schema param)) properties)
             (if required param then required_params @ [tp_name param] else required_params))"

definition openai_tool :: "ToolDef \<Rightarrow> pyval" where
  "openai_tool tool =
     (case tool_properties (parameters tool) [] [] of
        (properties, required_params) \<Rightarrow>
          (let parameters_schema =
                 [(''type'', PStr ''object''), (''properties'', PDict properties)]
                 @ (if required_params \<noteq> []
                    then [(''required'', PList (map PStr required_params))] else [])
           in PDict
                [(''type'', PStr ''function''),
                 (''function'', PDict
                    [(''name'', PStr (td_name tool)),
                     (''description'',
                      PStr (if td_description tool \<noteq> [] then td_description tool
                            else ''Executes the '' @ td_name tool @ '' tool.'')),
                     (''parameters'', PDict parameters_schema)])]))"

definition format_tools_for_openai :: "MCPCog \<Rightarrow> pyval list" where
  "format_tools_for_openai cog =
     concat (map (\<lambda>server_name.
                    case map_of (mcp_tools cog) server_name of
                      None \<Rightarrow> []
                    | Some tool_defs \<Rightarrow>
                        map openai_tool (filter (\<lambda>tool. td_name tool \<noteq> []) tool_defs))
               (dict_keys (mcp_connections cog)))"

section \<open>Conversation engine: \<^verbatim>\<open>_handle_chat_logic\<close>\<close>

text \<open>
  One call \<^verbatim>\<open>llm_client.chat.completions.create(messages=..., user=..., **params)\<close>, and
  what comes of it: an exception (from the call or while reading the stream), a stream
  of chunks, or a response whose \<^verbatim>\<open>choices[0].message\<close> is given (\<open>None\<close> when there are
  no choices).
\<close>

record llm_request =
  messages :: "message list"
  user :: string
  params :: "(string \<times> pyval) list"

record raw_tool_call =
  rtc_id :: string
  rtc_type :: string
  rtc_function :: "(string \<times> string) option"

record ChatCompletionMessage =
  cm_content :: "string option"
  cm_tool_calls :: "raw_tool_call list option"

datatype llm_reply =
    LlmError
  | LlmStream "ChoiceDelta option list"
  | LlmMessage "ChatCompletionMessage option"

text \<open>
  The services the turn calls: \<^verbatim>\<open>str()\<close> of a container, \<^verbatim>\<open>json.dumps(_, indent=2)\<close>,
  \<^verbatim>\<open>json.loads\<close> (\<open>None\<close> when it raises), the remote tool call and the reasoning
  backend.
\<close>

record env =
  env_repr :: "pyval \<Rightarrow> string"
  env_dumps :: "pyval \<Rightarrow> string option"
  json_loads :: "string \<Rightarrow> pyval option"
  invoke_tool :: "MCPClient \<Rightarrow> string \<Rightarrow> pyval \<Rightarrow> invoke_outcome"
  llm_create :: "llm_request \<Rightarrow> llm_reply"

text \<open>
  \<^verbatim>\<open>not s.strip()\<close>. A \<open>char\<close> is a code point below 256; the whitespace among them is
  9-13, 28-32, U+0085 and U+00A0.
\<close>

definition is_space :: "char \<Rightarrow> bool" where
  "is_space c = ((of_char c :: nat) \<in> set [9, 10, 11, 12, 13, 28, 29, 30, 31, 32, 133, 160])"

definition blank :: "string \<Rightarrow> bool" where
  "blank s = list_all is_space s"

text \<open>Lines 645-646: the tool calls of a non-streamed message.\<close>

definition message_tool_calls :: "ChatCompletionMessage \<Rightarrow> tool_call list" where
  "message_tool_calls response_message =
     (case cm_tool_calls response_message of
        None \<Rightarrow> []
      | Some raw_tool_calls \<Rightarrow>
          concat (map (\<lambda>tc. case rtc_function tc of
                               Some (fname, farguments) \<Rightarrow>
                                 if rtc_type tc = ''function'' \<and> rtc_id tc \<noteq> [] \<and> fname \<noteq> []
                                 then [\<lparr>tc_id = Some (rtc_id tc), tc_type = rtc_type tc,
                                        tc_name = fname, tc_arguments = farguments\<rparr>]
                                 else []
                             | None \<Rightarrow> [])
                    raw_tool_calls))"

text \<open>
  Lines 616-656: the text and tool calls of the first reply; \<open>None\<close> when the turn ends
  there (an exception, also one raised while aggregating, or a response without message).
\<close>

fun read_initial_reply :: "bool \<Rightarrow> llm_reply \<Rightarrow> (string \<times> tool_call list) option" where
  "read_initial_reply True (LlmStream chunks) =
     (case aggregate_streamed_response chunks of Inl e \<Rightarrow> None | Inr r \<Rightarrow> Some r)"
| "read_initial_reply False (LlmMessage (Some response_message)) =
     Some (or_empty (cm_content response_message), message_tool_calls response_message)"
| "read_initial_reply stream reply = None"

text \<open>
  Lines 745-762: the text of the follow-up reply. In the streamed case
  \<^verbatim>\<open>chunk.choices[0].delta.content\<close> raises on a chunk without choices or delta.
\<close>

fun read_follow_up :: "bool \<Rightarrow> llm_reply \<Rightarrow> string option" where
  "read_follow_up True (LlmStream chunks) =
     (if list_ex (\<lambda>c. c = None) chunks then None else Some (stream_text chunks))"
| "read_follow_up False (LlmMessage None) = Some ''''"
| "read_follow_up False (LlmMessage (Some follow_up_message)) =
     Some (or_empty (cm_content follow_up_message))"
| "read_follow_up stream reply = None"

definition tool_entry :: "string option \<Rightarrow> string \<Rightarrow> string \<Rightarrow> message" where
  "tool_entry call_id tool_name c =
     \<lparr>role = Tool, msg_content = Some c, tool_calls = None, tool_call_id = call_id,
      msg_name = Some tool_name\<rparr>"

definition msg_invalid_args :: "string \<Rightarrow> string \<Rightarrow> string" where
  "msg_invalid_args tool_name arguments_str =
     ''Error: Invalid JSON object arguments provided for tool '' @ dq @ tool_name @ dq
       @ ''. LLM sent: '' @ arguments_str"

text \<open>
  Lines 682-732: the loop over the tool calls, giving \<^verbatim>\<open>tool_results_for_history\<close> and
  the cog after the calls. Arguments that do not parse to a dict give an error entry and
  no call.
\<close>

fun run_tool_calls :: "env \<Rightarrow> tool_call list \<Rightarrow> MCPCog \<Rightarrow> message list \<times> MCPCog" where
  "run_tool_calls E [] cog = ([], cog)"
| "run_tool_calls E (tool_call # rest) cog =
     (case (case json_loads E (tc_arguments tool_call) of
              Some (PDict kvs) \<Rightarrow> Some (PDict kvs)
            | _ \<Rightarrow> None) of
        None \<Rightarrow>
          (case run_tool_calls E rest cog of
             (results, cog') \<Rightarrow>
               (tool_entry (tc_id tool_call) (tc_name tool_call)
                  (msg_invalid_args (tc_name tool_call) (tc_arguments tool_call)) # results,
                cog'))
      | Some tool_args \<Rightarrow>
          (case execute_tool (env_repr E) (invoke_tool E) (tc_name tool_call) tool_args cog of
             (tool_result_obj, cog1) \<Rightarrow>
               (case run_tool_calls E rest cog1 of
                  (results, cog') \<Rightarrow>
                    (tool_entry (tc_id tool_call) (tc_name tool_call)
                       (format_calltoolresult_content (env_repr E) (env_dumps E) tool_result_obj)
                       # results,
                     cog'))))"

text \<open>
  \<^verbatim>\<open>channel_history\<close> is the very list stored under the channel, so
  \<^verbatim>\<open>channel_history.append\<close> and \<^verbatim>\<open>.extend\<close> change the stored history too.
\<close>

definition append_entries ::
  "int \<Rightarrow> message list \<Rightarrow> message list \<times> MCPCog \<Rightarrow> message list \<times> MCPCog" where
  "append_entries channel_id entries st =
     (case st of (channel_history, cog) \<Rightarrow>
        (channel_history @ entries,
         cog\<lparr>message_history :=
               dict_set channel_id (channel_history @ entries) (message_history cog)\<rparr>))"

text \<open>
  What a turn leaves behind: the backend calls it made in order, the list
  \<^verbatim>\<open>tool_results_for_history\<close> it built, and the cog at its end.
\<close>

record turn =
  llm_calls :: "llm_request list"
  tool_results :: "message list"
  final :: MCPCog

text \<open>Lines 734-770, entered with a non-empty \<^verbatim>\<open>tool_results_for_history\<close>.\<close>

definition follow_up ::
  "env \<Rightarrow> int \<Rightarrow> int \<Rightarrow> bool \<Rightarrow> llm_request \<Rightarrow> message list \<Rightarrow> message list \<times> MCPCog \<Rightarrow> turn" where
  "follow_up E channel_id user_id stream req1 results st =
     (case append_entries channel_id results st of
        (channel_history, cog) \<Rightarrow>
          (let follow_up_params =
                 dict_del ''tool_choice''
                   (dict_del ''tools''
                      (dict_set ''stream'' (PBool stream) (llm_chat_params cog)));
               req2 = \<lparr>messages = channel_history, user = str_int user_id,
                       params = follow_up_params\<rparr>
           in case read_follow_up stream (llm_create E req2) of
                None \<Rightarrow> \<lparr>llm_calls = [req1, req2], tool_results = results, final = cog\<rparr>
              | Some follow_up_text \<Rightarrow>
                  if \<not> blank follow_up_text
                  then \<lparr>llm_calls = [req1, req2], tool_results = results,
                        final = snd (append_entries channel_id
                                       [plain_entry Assistant follow_up_text]
                                       (channel_history, cog))\<rparr>
                  else \<lparr>llm_calls = [req1, req2], tool_results = results, final = cog\<rparr>))"

text \<open>Lines 658-736, from the text and tool calls of the first reply.\<close>

definition after_initial_reply ::
  "env \<Rightarrow> int \<Rightarrow> int \<Rightarrow> bool \<Rightarrow> llm_request \<Rightarrow> string \<times> tool_call list
     \<Rightarrow> message list \<times> MCPCog \<Rightarrow> turn" where
  "after_initial_reply E channel_id user_id stream req1 reply st =
     (case reply of (initial_response_content, tool_calls_aggregated) \<Rightarrow>
        (let assistant_message_dict =
               \<lparr>role = Assistant,
                msg_content = (if \<not> blank initial_response_content
                               then Some initial_response_content else None),
                tool_calls = (if tool_calls_aggregated \<noteq> []
                              then Some tool_calls_aggregated else None),
                tool_call_id = None, msg_name = None\<rparr>
         in if blank initial_response_content \<and> tool_calls_aggregated = []
            then \<lparr>llm_calls = [req1], tool_results = [], final = snd st\<rparr>
            else
              (case append_entries channel_id [assistant_message_dict] st of
                 (channel_history, cog) \<Rightarrow>
                   if tool_calls_aggregated = []
                   then \<lparr>llm_calls = [req1], tool_results = [], final = cog\<rparr>
                   else
                     (case run_tool_calls E tool_calls_aggregated cog of
                        (tool_results_for_history, cog') \<Rightarrow>
                          if tool_results_for_history = []
                          then \<lparr>llm_calls = [req1], tool_results = [], final = cog'\<rparr>
                          else follow_up E channel_id user_id stream req1
                                 tool_results_for_history (channel_history, cog')))))"

text \<open>
  Lines 593-656 and then the rest: the whole turn for one user message. The delivery of
  texts to the chat platform (\<^verbatim>\<open>send_long_message\<close>) touches neither the history, the
  registry nor the backend and is left out.
\<close>

definition handle_chat_logic :: "env \<Rightarrow> string \<Rightarrow> int \<Rightarrow> int \<Rightarrow> bool \<Rightarrow> MCPCog \<Rightarrow> turn" where
  "handle_chat_logic E message channel_id user_id stream cog =
     (case get_channel_history channel_id cog of
        Inl e \<Rightarrow> \<lparr>llm_calls = [], tool_results = [], final = cog\<rparr>
      | Inr st0 \<Rightarrow>
          (case append_entries channel_id [plain_entry User message] st0 of
             (channel_history, cog1) \<Rightarrow>
               (let openai_tools = format_tools_for_openai cog1;
                    chat_params0 = dict_set ''stream'' (PBool stream) (llm_chat_params cog1);
                    chat_params =
                      (if openai_tools \<noteq> []
                       then dict_set ''tool_choice'' (PStr ''auto'')
                              (dict_set ''tools'' (PList openai_tools) chat_params0)
                       else chat_params0);
                    req1 = \<lparr>messages = channel_history, user = str_int user_id,
                            params = chat_params\<rparr>
                in case read_initial_reply stream (llm_create E req1) of
                     None \<Rightarrow> \<lparr>llm_calls = [req1], tool_results = [], final = cog1\<rparr>
                   | Some reply \<Rightarrow>
                       after_initial_reply E channel_id user_id stream req1 reply
                         (channel_history, cog1))))"

section \<open>Example states\<close>

text \<open>One connected server publishing \<^verbatim>\<open>getWeather\<close>; and the same with a second server.\<close>

definition cog_one :: MCPCog where
  "cog_one = \<lparr>mcp_connections = [(''srv'', MCPClient ''http://srv'')],
      mcp_tools = [(''srv'', [\<lparr>td_name = ''getWeather'', td_description = '''', parameters = []\<rparr>])],
      message_history = [], shutdown_event = False, system_message = ''sys'',
      max_history_length = 2, llm_chat_params = []\<rparr>"

definition cog_two :: MCPCog where
  "cog_two = cog_one\<lparr>
      mcp_connections := [(''srv'', MCPClient ''http://srv''), (''other'', MCPClient ''http://other'')],
      mcp_tools := [(''srv'', [\<lparr>td_name = ''getWeather'', td_description = '''', parameters = []\<rparr>]),
                    (''other'', [\<lparr>td_name = ''search'', td_description = '''', parameters = []\<rparr>])]\<rparr>"

text \<open>A remote call that always fails with a connection error.\<close>

definition invoke_fault :: "MCPClient \<Rightarrow> string \<Rightarrow> pyval \<Rightarrow> invoke_outcome" where
  "invoke_fault c t a = ConnFault"

text \<open>A cog with cap 2 whose channel 1 holds \<^verbatim>\<open>[system, u1, a1, u2, a2, u3]\<close>.\<close>

definition cog_six :: MCPCog where
  "cog_six = cog_one\<lparr>message_history :=
     [(1, [system_entry ''sys'', plain_entry User ''u1'', plain_entry Assistant ''a1'',
           plain_entry User ''u2'', plain_entry Assistant ''a2'', plain_entry User ''u3''])]\<rparr>"

text \<open>The supervisor of \<^verbatim>\<open>srv\<close> suspended at line 203 after its first successful listing.\<close>

definition sup_ready :: supervisor where
  "sup_ready = \<lparr>pc = Ready, reconnect_delay = 15, waits = []\<rparr>"

text \<open>Every stored history starts with the system message of the cog.\<close>

definition history_ok :: "MCPCog \<Rightarrow> bool" where
  "history_ok cog =
     list_all (\<lambda>(c, h). h \<noteq> [] \<and> hd h = system_entry (system_message cog))
       (message_history cog)"

text \<open>
  A backend that asks for \<^verbatim>\<open>getWeather\<close> while tools are offered and answers in text
  otherwise, and a tool that returns the text \<^verbatim>\<open>sunny\<close>.
\<close>

definition env_example :: env where
  "env_example =
     \<lparr>env_repr = (\<lambda>v. ''''),
      env_dumps = (\<lambda>v. None),
      json_loads = (\<lambda>s. Some (PDict [])),
      invoke_tool = (\<lambda>c t a. Returned \<lparr>content = PStr ''sunny'', error_code = None\<rparr>),
      llm_create = (\<lambda>req.
         if map_of (params req) ''tools'' \<noteq> None
         then LlmMessage (Some \<lparr>cm_content = None, cm_tool_calls = Some
                 [\<lparr>rtc_id = ''a'', rtc_type = ''function'',
                   rtc_function = Some (''getWeather'', ''{}'')\<rparr>]\<rparr>)
         else LlmMessage (Some \<lparr>cm_content = Some ''Sunny.'', cm_tool_calls = None\<rparr>))\<rparr>"

section \<open>Properties of the router\<close>





text \<open>
  While the two registry dicts hold the same servers, no call is answered with the
  "exists ..., but the server is currently disconnected" text: the origin found in
  \<^verbatim>\<open>mcp_tools\<close> always has a connection.
\<close>

lemma find_origin_key:
  "find_origin tool_name tools = Some s \<Longrightarrow> s \<in> set (dict_keys tools)"
  by (induction tools) (auto simp: dict_keys_def split: if_splits)

lemma unavailable_unreachable:
  assumes "registry_aligned cog"
  shows "resolve_tool tool_name cog \<noteq> Inl (error_dict (msg_unavailable tool_name s))"
proof -
  have "dict_has origin (mcp_connections cog)"
    if "find_origin tool_name (mcp_tools cog) = Some origin" for origin
    using find_origin_key [OF that] assms by (simp add: registry_aligned_def dict_has_def)
  then show ?thesis
    by (auto simp: resolve_tool_def error_dict_def msg_unavailable_def msg_no_servers_def
          msg_mismatch_def msg_not_found_def split: option.splits prod.splits if_splits)
qed

text \<open>
  C2 (the code departs from the claim). A connection error during \<^verbatim>\<open>getWeather\<close>
  deletes the server from \<^verbatim>\<open>mcp_connections\<close> and from \<^verbatim>\<open>mcp_tools\<close>. The next
  \<^verbatim>\<open>execute_tool\<close> for the same tool then finds the name in no tool list: with no
  other server it answers "No MCP servers currently connected", with another server
  connected it answers "not found on any configured and connected MCP server". Neither is
  the "exists ..., but the server is currently disconnected or unavailable" answer.
\<close>

theorem C2_execute_after_eviction_not_found:
  "(let (r1, cog1) = execute_tool repr invoke_fault ''getWeather'' (PDict []) cog_one;
        (r2, cog2) = execute_tool repr invoke_fault ''getWeather'' (PDict []) cog1
    in r1 = error_dict (msg_conn_error ''getWeather'')
       \<and> mcp_connections cog1 = [] \<and> mcp_tools cog1 = []
       \<and> r2 = error_dict (msg_no_servers ''getWeather'')
       \<and> r2 \<noteq> error_dict (msg_unavailable ''getWeather'' ''srv''))
   \<and> (let (r1, cog1) = execute_tool repr invoke_fault ''getWeather'' (PDict []) cog_two;
        (r2, cog2) = execute_tool repr invoke_fault ''getWeather'' (PDict []) cog1
    in r1 = error_dict (msg_conn_error ''getWeather'')
       \<and> dict_keys (mcp_connections cog1) = [''other''] \<and> dict_keys (mcp_tools cog1) = [''other'']
       \<and> r2 = error_dict (msg_not_found ''getWeather'')
       \<and> r2 \<noteq> error_dict (msg_unavailable ''getWeather'' ''srv''))"
  by (simp add: execute_tool_def resolve_tool_def finish_tool_def cog_one_def cog_two_def
        invoke_fault_def has_tool_def dict_del_def dict_keys_def dict_has_def error_dict_def
        msg_no_servers_def msg_unavailable_def msg_not_found_def dq_def)

section \<open>Properties of the result formatter\<close>

text \<open>
  C8. \<^verbatim>\<open>format_calltoolresult_content\<close> returns a string on every input: the text block
  \<^verbatim>\<open>{type: "text", text: "42"}\<close> gives \<^verbatim>\<open>42\<close>; \<^verbatim>\<open>None\<close> content gives the fixed
  no-content sentence; an error dict gives \<^verbatim>\<open>Tool Error: \<close> and its text; a str, int,
  bool or other object gives its \<^verbatim>\<open>str()\<close>; a list or dict gives \<^verbatim>\<open>json.dumps\<close> of it
  (its \<^verbatim>\<open>str()\<close> when that raises \<^verbatim>\<open>TypeError\<close>); any other value gives a diagnostic of
  at most 231 characters, the prefix and the first 200 characters of its \<^verbatim>\<open>str()\<close>.
\<close>

theorem C8_format_calltoolresult_content_cases:
  "format_calltoolresult_content repr dumps
     (TIR \<lparr>content = PDict [(''type'', PStr ''text''), (''text'', PStr ''42'')], error_code = Some 0\<rparr>)
     = ''42''
   \<and> format_calltoolresult_content repr dumps (TIR \<lparr>content = PNone, error_code = ec\<rparr>)
     = ''Tool executed successfully but returned no content.''
   \<and> format_calltoolresult_content repr dumps (error_dict msg) = ''Tool Error: '' @ msg
   \<and> format_calltoolresult_content repr dumps (TIR \<lparr>content = PStr s, error_code = ec\<rparr>) = s
   \<and> format_calltoolresult_content repr dumps (TIR \<lparr>content = PInt i, error_code = ec\<rparr>) = str_int i
   \<and> format_calltoolresult_content repr dumps (TIR \<lparr>content = PBool b, error_code = ec\<rparr>)
     = (if b then ''True'' else ''False'')
   \<and> format_calltoolresult_content repr dumps (TIR \<lparr>content = PObj t s, error_code = ec\<rparr>) = s
   \<and> (dumps (PList xs) = Some js \<longrightarrow>
        format_calltoolresult_content repr dumps (TIR \<lparr>content = PList xs, error_code = ec\<rparr>) = js)
   \<and> (dumps (PDict kvs) = Some js \<and> map_of kvs ''type'' \<noteq> Some (PStr ''text'') \<longrightarrow>
        format_calltoolresult_content repr dumps (TIR \<lparr>content = PDict kvs, error_code = ec\<rparr>) = js)
   \<and> (dumps (PList xs) = None \<longrightarrow>
        format_calltoolresult_content repr dumps (TIR \<lparr>content = PList xs, error_code = ec\<rparr>)
          = repr (PList xs))
   \<and> ((\<forall>d. v = PDict d \<longrightarrow> map_of d ''error'' = None) \<longrightarrow>
        format_calltoolresult_content repr dumps (PyVal v)
          = ''Unexpected tool result format: '' @ take 200 (py_str repr v)
        \<and> length (format_calltoolresult_content repr dumps (PyVal v)) \<le> 231)"
proof -
  have unexp: "format_calltoolresult_content repr dumps (PyVal v)
          = ''Unexpected tool result format: '' @ take 200 (py_str repr v)"
    if "\<forall>d. v = PDict d \<longrightarrow> map_of d ''error'' = None"
    using that by (cases v) (simp_all add: format_unexpected_def)
  show ?thesis
    apply (intro conjI impI)
    subgoal by (simp add: dict_has_def dict_keys_def)
    subgoal by (simp add: msg_no_content_def)
    subgoal by (simp add: error_dict_def)
    subgoal by simp
    subgoal by simp
    subgoal by simp
    subgoal by simp
    subgoal by (simp add: format_json_def)
    subgoal by (simp add: format_json_def)
    subgoal by (simp add: format_json_def)
    subgoal using unexp by simp
    subgoal using unexp by simp
    done
qed

theorem C8_format_calltoolresult_content_cases_witness:
  "format_calltoolresult_content (\<lambda>v. ''?'') (\<lambda>v. Some ''[\<newline>  1\<newline>]'')
      (TIR \<lparr>content = PList [PInt 1], error_code = None\<rparr>) = ''[\<newline>  1\<newline>]''
   \<and> format_calltoolresult_content (\<lambda>v. ''?'') (\<lambda>v. Some ''{}'')
      (TIR \<lparr>content = PDict [(''a'', PInt 1)], error_code = None\<rparr>) = ''{}''
   \<and> format_calltoolresult_content (\<lambda>v. ''[<object>]'') (\<lambda>v. None)
      (TIR \<lparr>content = PList [PObj True ''<object>''], error_code = None\<rparr>) = ''[<object>]''
   \<and> format_calltoolresult_content (\<lambda>v. ''?'') (\<lambda>v. None) (PyVal (PInt 5))
       = ''Unexpected tool result format: 5''"
  using C8_format_calltoolresult_content_cases
          [of "\<lambda>v. ''?''" "\<lambda>v. Some ''[\<newline>  1\<newline>]''" None "''''" "''''" 0 True True "[PInt 1]" "''[\<newline>  1\<newline>]''" "[]" "PNone"]
        C8_format_calltoolresult_content_cases
          [of "\<lambda>v. ''?''" "\<lambda>v. Some ''{}''" None "''''" "''''" 0 True True "[]" "''{}''" "[(''a'', PInt 1)]" "PNone"]
        C8_format_calltoolresult_content_cases
          [of "\<lambda>v. ''[<object>]''" "\<lambda>v. None" None "''''" "''''" 0 True True "[PObj True ''<object>'']" "''''" "[]" "PNone"]
        C8_format_calltoolresult_content_cases
          [of "\<lambda>v. ''?''" "\<lambda>v. None" None "''''" "''''" 0 True True "[]" "''''" "[]" "PInt 5"]
  by (simp add: str_int_def str_nat.simps)

section \<open>Properties of the streaming aggregator\<close>

lemma slot_count_snoc: "slot_count (frs @ [f]) = max (slot_count frs) (nat (index f + 1))"
  by (simp add: slot_count_def)

lemma slot_count_bound: "f \<in> set frs \<Longrightarrow> index f = int j \<Longrightarrow> j < slot_count frs"
proof (induction frs rule: rev_induct)
  case Nil
  then show ?case by simp
next
  case (snoc x xs)
  then show ?case by (auto simp: slot_count_snoc)
qed

lemma frags_for_beyond: "slot_count frs \<le> j \<Longrightarrow> frags_for frs j = []"
  using slot_count_bound [of _ frs j] by (auto simp: frags_for_def filter_empty_conv)

lemma slot_of_beyond: "slot_count frs \<le> j \<Longrightarrow> slot_of frs j = empty_slot"
  by (simp add: slot_of_def frags_for_beyond last_id_def empty_slot_def)

lemma pad_slot_table:
  "pad_slots idx (slot_table frs) = map (slot_of frs) [0..<max (slot_count frs) (nat (idx + 1))]"
proof (rule nth_equalityI)
  show "length (pad_slots idx (slot_table frs))
          = length (map (slot_of frs) [0..<max (slot_count frs) (nat (idx + 1))])"
    by (simp add: pad_slots_def slot_table_def)
next
  fix j assume "j < length (pad_slots idx (slot_table frs))"
  then have j: "j < max (slot_count frs) (nat (idx + 1))"
    by (simp add: pad_slots_def slot_table_def)
  show "pad_slots idx (slot_table frs) ! j
          = map (slot_of frs) [0..<max (slot_count frs) (nat (idx + 1))] ! j"
  proof (cases "j < slot_count frs")
    case True
    then show ?thesis using j by (simp add: pad_slots_def slot_table_def nth_append)
  next
    case False
    then have "slot_of frs j = empty_slot" by (simp add: slot_of_beyond)
    then show ?thesis using j False by (simp add: pad_slots_def slot_table_def nth_append)
  qed
qed

lemma frags_for_snoc:
  "frags_for (frs @ [f]) j = (if index f = int j then frags_for frs j @ [f] else frags_for frs j)"
  by (simp add: frags_for_def)

lemma last_id_alt:
  "last_id frs =
     (let ids = filter (\<lambda>s. s \<noteq> []) (map (\<lambda>f. or_empty (chunk_id f)) frs)
      in if ids = [] then None else Some (last ids))"
  by (simp add: last_id_def Let_def split: list.splits)

lemma last_id_snoc:
  "last_id (xs @ [f]) = (if or_empty (chunk_id f) \<noteq> [] then chunk_id f else last_id xs)"
  by (cases "chunk_id f") (simp_all add: last_id_alt Let_def or_empty_def)

lemma slot_of_snoc_other: "index f \<noteq> int j \<Longrightarrow> slot_of (frs @ [f]) j = slot_of frs j"
  by (simp add: slot_of_def frags_for_snoc)

lemma slot_of_snoc_same:
  "index f = int j \<Longrightarrow>
   slot_of (frs @ [f]) j =
     \<lparr>tc_id = (if or_empty (chunk_id f) \<noteq> [] then chunk_id f else tc_id (slot_of frs j)),
      tc_type = ''function'',
      tc_name = tc_name (slot_of frs j) @ frag_name f,
      tc_arguments = tc_arguments (slot_of frs j) @ frag_arguments f\<rparr>"
  by (simp add: slot_of_def frags_for_snoc last_id_snoc)

lemma slot_of_type: "tc_type (slot_of frs j) = ''function''"
  by (simp add: slot_of_def)

lemma apply_chunk_slot_table:
  assumes "0 \<le> index f"
  shows "apply_chunk f (slot_table frs) = Inr (slot_table (frs @ [f]))"
proof -
  define i where "i = nat (index f)"
  define n where "n = max (slot_count frs) (Suc i)"
  have idx: "index f = int i" using assms by (simp add: i_def)
  have nat1: "nat (index f + 1) = Suc i" using assms by (simp add: i_def)
  have pad: "pad_slots (index f) (slot_table frs) = map (slot_of frs) [0..<n]"
    by (simp add: pad_slot_table nat1 n_def)
  have i_n: "i < n" by (simp add: n_def)
  have pos: "py_pos (index f) n = Some i"
    using i_n by (simp add: py_pos_def idx)
  have cnt: "slot_count (frs @ [f]) = n"
    by (simp add: slot_count_snoc nat1 n_def)
  define tc2 where "tc2 = slot_of (frs @ [f]) i"
  have step: "apply_chunk f (slot_table frs) = Inr ((map (slot_of frs) [0..<n])[i := tc2])"
  proof -
    have "(let tc_ref = slot_of frs i;
               tc1 = (if or_empty (chunk_id f) \<noteq> [] then tc_ref\<lparr>tc_id := chunk_id f\<rparr> else tc_ref)
           in case chunk_function f of
                None \<Rightarrow> tc1
              | Some chunk_func \<Rightarrow>
                  (let tc1n = (if or_empty (fc_name chunk_func) \<noteq> []
                               then tc1\<lparr>tc_name := tc_name tc1 @ or_empty (fc_name chunk_func)\<rparr>
                               else tc1)
                   in if or_empty (fc_arguments chunk_func) \<noteq> []
                      then tc1n\<lparr>tc_arguments := tc_arguments tc1n @ or_empty (fc_arguments chunk_func)\<rparr>
                      else tc1n)) = tc2"
      unfolding tc2_def slot_of_snoc_same [OF idx]
      by (cases "slot_of frs i")
         (auto simp: Let_def frag_name_def frag_arguments_def slot_of_type [of frs i, simplified]
               split: option.splits dest: arg_cong [where f = tc_type])
    then show ?thesis
      using i_n by (simp add: apply_chunk_def pad pos Let_def)
  qed
  have "(map (slot_of frs) [0..<n])[i := tc2] = slot_table (frs @ [f])"
  proof (rule nth_equalityI)
    show "length ((map (slot_of frs) [0..<n])[i := tc2]) = length (slot_table (frs @ [f]))"
      by (simp add: slot_table_def cnt)
  next
    fix j assume "j < length ((map (slot_of frs) [0..<n])[i := tc2])"
    then have j: "j < n" by simp
    show "(map (slot_of frs) [0..<n])[i := tc2] ! j = slot_table (frs @ [f]) ! j"
    proof (cases "j = i")
      case True
      then show ?thesis using j by (simp add: slot_table_def cnt tc2_def)
    next
      case False
      then have "index f \<noteq> int j" using idx by simp
      then show ?thesis using j False by (simp add: slot_table_def cnt slot_of_snoc_other)
    qed
  qed
  with step show ?thesis by simp
qed

lemma apply_chunks_slot_table:
  "\<forall>f \<in> set tcs. 0 \<le> index f \<Longrightarrow>
   apply_chunks tcs (slot_table frs) = Inr (slot_table (frs @ tcs))"
proof (induction tcs arbitrary: frs)
  case Nil
  then show ?case by simp
next
  case (Cons f tcs)
  then show ?case using Cons.IH [of "frs @ [f]"] by (simp add: apply_chunk_slot_table)
qed

lemma aggregate_stream_slot_table:
  "\<forall>f \<in> set (stream_fragments chunks). 0 \<le> index f \<Longrightarrow>
   aggregate_stream chunks (t, slot_table frs)
     = Inr (t @ stream_text chunks, slot_table (frs @ stream_fragments chunks))"
proof (induction chunks arbitrary: t frs)
  case Nil
  then show ?case by (simp add: stream_text_def stream_fragments_def)
next
  case (Cons c chunks)
  show ?case
  proof (cases c)
    case None
    then show ?thesis using Cons by (simp add: stream_text_def stream_fragments_def)
  next
    case (Some delta)
    define tcs where "tcs = (case delta_tool_calls delta of Some tcs \<Rightarrow> tcs | None \<Rightarrow> [])"
    have sf: "stream_fragments (c # chunks) = tcs @ stream_fragments chunks"
      by (simp add: stream_fragments_def Some tcs_def)
    have st: "stream_text (c # chunks) = or_empty (delta_content delta) @ stream_text chunks"
      by (simp add: stream_text_def Some)
    have nonneg: "\<forall>f \<in> set tcs. 0 \<le> index f" "\<forall>f \<in> set (stream_fragments chunks). 0 \<le> index f"
      using Cons.prems sf by auto
    have "apply_chunks tcs (slot_table frs) = Inr (slot_table (frs @ tcs))"
      using nonneg(1) by (rule apply_chunks_slot_table)
    then show ?thesis
      using Cons.IH [OF nonneg(2), of "t @ or_empty (delta_content delta)" "frs @ tcs"]
      by (simp add: Some sf [unfolded Some] st [unfolded Some] tcs_def [symmetric] Let_def)
  qed
qed

lemma example_stream_eval:
  "aggregate_streamed_response example_stream = Inr ('''', [example_tool_call])"
  by (simp add: aggregate_streamed_response_def example_stream_def example_tool_call_def
        apply_chunk_def pad_slots_def py_pos_def or_empty_def empty_slot_def
        finalize_tool_calls_def dq_def Let_def)

text \<open>
  C3 as stated fails for a fragment with a negative index. \<^verbatim>\<open>current_tool_calls[-1]\<close> is
  the last slot of the list, so a fragment addressed to -1 after one for slot 0 is merged
  into slot 0: the one finalized call has id \<^verbatim>\<open>b\<close> and name \<^verbatim>\<open>getX\<close>, where the slot
  table has slot 0 with id \<^verbatim>\<open>a\<close> and name \<^verbatim>\<open>get\<close>. Addressed to an empty list, the same
  fragment raises \<^verbatim>\<open>IndexError\<close>.
\<close>

theorem C3_stream_aggregation_counterexample:
  "aggregate_streamed_response neg_stream
     = Inr ('''', [\<lparr>tc_id = Some ''b'', tc_type = ''function'', tc_name = ''getX'',
                    tc_arguments = ''''\<rparr>])
   \<and> finalize_tool_calls (slot_table (stream_fragments neg_stream))
     = [\<lparr>tc_id = Some ''a'', tc_type = ''function'', tc_name = ''get'', tc_arguments = ''''\<rparr>]
   \<and> aggregate_streamed_response neg_stream
     \<noteq> Inr (stream_text neg_stream,
            finalize_tool_calls (slot_table (stream_fragments neg_stream)))
   \<and> aggregate_streamed_response neg_only_stream = Inl IndexError"
proof -
  have code: "aggregate_streamed_response neg_stream
     = Inr ('''', [\<lparr>tc_id = Some ''b'', tc_type = ''function'', tc_name = ''getX'',
                    tc_arguments = ''''\<rparr>])"
    by (simp add: aggregate_streamed_response_def neg_stream_def apply_chunk_def pad_slots_def
          py_pos_def or_empty_def empty_slot_def finalize_tool_calls_def Let_def)
  have table: "finalize_tool_calls (slot_table (stream_fragments neg_stream))
     = [\<lparr>tc_id = Some ''a'', tc_type = ''function'', tc_name = ''get'', tc_arguments = ''''\<rparr>]"
    by (simp add: stream_fragments_def neg_stream_def slot_table_def slot_count_def slot_of_def
          frags_for_def last_id_def frag_name_def frag_arguments_def or_empty_def
          finalize_tool_calls_def)
  have alone: "aggregate_streamed_response neg_only_stream = Inl IndexError"
    by (simp add: aggregate_streamed_response_def neg_only_stream_def apply_chunk_def
          pad_slots_def py_pos_def Let_def)
  show ?thesis using code table alone by simp
qed

text \<open>
  C3, amended. For every stream whose fragments all carry a non-negative index, the
  streaming branch returns the concatenated text and, of the slot table, exactly the
  slots whose id and name are both non-empty. Slot \<open>i\<close> of the table holds the
  concatenation of the names and of the arguments of the fragments addressed to \<open>i\<close>, in
  stream order, and the last non-empty id one of them gave (none when no fragment gave
  one). For the example stream the one finalized tool call is id \<^verbatim>\<open>a\<close>, name
  \<^verbatim>\<open>getWeather\<close> with the joined arguments.
\<close>

theorem C3_stream_aggregation:
  assumes "\<forall>f \<in> set (stream_fragments chunks). 0 \<le> index f"
  shows "aggregate_streamed_response chunks
           = Inr (stream_text chunks,
                  filter (\<lambda>tc. or_empty (tc_id tc) \<noteq> [] \<and> tc_name tc \<noteq> [])
                    (slot_table (stream_fragments chunks)))
       \<and> length (slot_table (stream_fragments chunks)) = slot_count (stream_fragments chunks)
       \<and> (\<forall>i < slot_count (stream_fragments chunks).
            tc_name (slot_table (stream_fragments chunks) ! i)
              = concat (map frag_name (filter (\<lambda>f. index f = int i) (stream_fragments chunks)))
          \<and> tc_arguments (slot_table (stream_fragments chunks) ! i)
              = concat (map frag_arguments (filter (\<lambda>f. index f = int i) (stream_fragments chunks)))
          \<and> tc_id (slot_table (stream_fragments chunks) ! i)
              = last_id (filter (\<lambda>f. index f = int i) (stream_fragments chunks)))
       \<and> aggregate_streamed_response example_stream = Inr ('''', [example_tool_call])"
proof -
  have "slot_table [] = []" by (simp add: slot_table_def slot_count_def)
  then have "aggregate_stream chunks ('''', [])
               = Inr (stream_text chunks, slot_table (stream_fragments chunks))"
    using aggregate_stream_slot_table [OF assms, of "''''" "[]"] by simp
  then have 1: "aggregate_streamed_response chunks
           = Inr (stream_text chunks,
                  filter (\<lambda>tc. or_empty (tc_id tc) \<noteq> [] \<and> tc_name tc \<noteq> [])
                    (slot_table (stream_fragments chunks)))"
    by (simp add: aggregate_streamed_response_def finalize_tool_calls_def)
  have 2: "length (slot_table frs) = slot_count frs" for frs
    by (simp add: slot_table_def)
  have 3: "slot_table frs ! i = slot_of frs i" if "i < slot_count frs" for frs i
    using that by (simp add: slot_table_def)
  show ?thesis
    using 1 2 3 example_stream_eval by (simp add: slot_of_def frags_for_def)
qed

theorem C3_stream_aggregation_witness:
  "map index (stream_fragments example_stream) = [0, 1, 0]
   \<and> stream_text example_stream = ''''
   \<and> filter (\<lambda>tc. or_empty (tc_id tc) \<noteq> [] \<and> tc_name tc \<noteq> [])
        (slot_table (stream_fragments example_stream)) = [example_tool_call]
   \<and> aggregate_streamed_response example_stream = Inr ('''', [example_tool_call])"
proof -
  have frs: "map index (stream_fragments example_stream) = [0, 1, 0]"
    by (simp add: stream_fragments_def example_stream_def)
  have nonneg: "\<forall>f \<in> set (stream_fragments example_stream). 0 \<le> index f"
    by (simp add: stream_fragments_def example_stream_def)
  have stxt: "stream_text example_stream = ''''"
    by (simp add: stream_text_def example_stream_def or_empty_def)
  from C3_stream_aggregation [OF nonneg]
  have a: "aggregate_streamed_response example_stream
             = Inr (stream_text example_stream,
                    filter (\<lambda>tc. or_empty (tc_id tc) \<noteq> [] \<and> tc_name tc \<noteq> [])
                      (slot_table (stream_fragments example_stream)))"
    and b: "aggregate_streamed_response example_stream = Inr ([], [example_tool_call])"
    by blast+
  from a b have "filter (\<lambda>tc. or_empty (tc_id tc) \<noteq> [] \<and> tc_name tc \<noteq> [])
                   (slot_table (stream_fragments example_stream)) = [example_tool_call]"
    by simp
  with frs stxt b show ?thesis by simp
qed

section \<open>Properties of the conversation history\<close>

text \<open>
  C6 as stated fails: with cap 2 a read of \<^verbatim>\<open>[system, u1, a1, u2, a2, u3]\<close> does not
  give \<^verbatim>\<open>[system, u3]\<close>.
\<close>

theorem C6_trim_cap_two_counterexample:
  "map_sum id fst (get_channel_history 1 cog_six)
     \<noteq> Inr [system_entry ''sys'', plain_entry User ''u3'']"
  by (simp add: get_channel_history_def cog_six_def cog_one_def Let_def)

text \<open>
  C6, amended. With cap 2 a read of \<^verbatim>\<open>[system, u1, a1, u2, a2, u3]\<close> returns and stores
  \<^verbatim>\<open>[system, a2, u3]\<close>: the system message and the last two entries.
\<close>

theorem C6_trim_cap_two:
  "get_channel_history channel_id
      (cog\<lparr>max_history_length := 2,
           message_history := [(channel_id, [system, u1, a1, u2, a2, u3])]\<rparr>)
     = Inr ([system, a2, u3],
            cog\<lparr>max_history_length := 2,
                message_history := [(channel_id, [system, a2, u3])]\<rparr>)"
  by (simp add: get_channel_history_def Let_def dict_set_def)

section \<open>Properties of the supervisor and the registry\<close>

lemma backoff_round:
  assumes "\<not> shutdown_event cog"
  shows "supervisor_run url name [AttemptDone Failed, DelayElapsed]
           (\<lparr>pc = Connecting, reconnect_delay = d, waits = w\<rparr>, cog)
         = (\<lparr>pc = Connecting, reconnect_delay = min (d * 2) 300, waits = w @ [d]\<rparr>,
            cleanup name cog)"
  using assms
  by (simp add: supervisor_step_def cleanup_and_wait_def loop_head_def cleanup_def
        max_reconnect_delay_def Let_def)

lemma supervisor_run_append:
  "supervisor_run url name (xs @ ys) st = supervisor_run url name ys (supervisor_run url name xs st)"
  by (induction xs arbitrary: st) simp_all

lemma cleanup_shutdown: "shutdown_event (cleanup name cog) = shutdown_event cog"
  by (simp add: cleanup_def)

lemma min_double:
  assumes "0 < d"
  shows "min (min (d * 2) 300 * 2 ^ k) (300::int) = min (d * 2 ^ Suc k) 300"
proof -
  define p :: int where "p = 2 ^ k"
  define q where "q = d * 2 * p"
  have p: "1 \<le> p" by (simp add: p_def)
  have q: "d * 2 \<le> q"
    using mult_left_mono [OF p, of "d * 2"] assms by (simp add: q_def)
  have r: "d * 2 ^ Suc k = q" by (simp add: q_def p_def)
  show ?thesis
  proof (cases "d * 2 \<le> 300")
    case True
    then have "min (d * 2) 300 * 2 ^ k = q" by (simp add: q_def p_def)
    then show ?thesis using r by simp
  next
    case False
    then have "min (d * 2) 300 * 2 ^ k = 300 * p" by (simp add: p_def)
    moreover have "min (300 * p) 300 = 300" using p by simp
    moreover have "min q 300 = 300" using q False by simp
    ultimately show ?thesis using r by simp
  qed
qed

lemma backoff_rounds:
  assumes "\<not> shutdown_event cog" "0 < d" "d \<le> 300"
  shows "fst (supervisor_run url name (concat (replicate n [AttemptDone Failed, DelayElapsed]))
                (\<lparr>pc = Connecting, reconnect_delay = d, waits = w\<rparr>, cog))
         = \<lparr>pc = Connecting, reconnect_delay = min (d * 2 ^ n) 300,
            waits = w @ map (\<lambda>k. min (d * 2 ^ k) 300) [0..<n]\<rparr>"
  using assms
proof (induction n arbitrary: d w cog)
  case 0
  then show ?case by simp
next
  case (Suc n)
  have sh: "\<not> shutdown_event (cleanup name cog)" using Suc.prems by (simp add: cleanup_shutdown)
  have pos: "0 < min (d * 2) 300" "min (d * 2) 300 \<le> 300" using Suc.prems by simp_all
  have run: "supervisor_run url name
               (concat (replicate (Suc n) [AttemptDone Failed, DelayElapsed]))
               (\<lparr>pc = Connecting, reconnect_delay = d, waits = w\<rparr>, cog)
             = supervisor_run url name (concat (replicate n [AttemptDone Failed, DelayElapsed]))
                 (\<lparr>pc = Connecting, reconnect_delay = min (d * 2) 300, waits = w @ [d]\<rparr>,
                  cleanup name cog)"
    using backoff_round [OF Suc.prems(1), of url name d w]
    by (simp add: supervisor_step_def)
  have d0: "min (d * 2 ^ 0) 300 = d" using Suc.prems by simp
  have shift: "map (\<lambda>k. min (d * 2 ^ k) 300) [0..<Suc n]
                 = d # map (\<lambda>k. min (min (d * 2) 300 * 2 ^ k) 300) [0..<n]"
  proof -
    have "map (\<lambda>k. min (d * 2 ^ k) 300) [0..<Suc n]
            = min (d * 2 ^ 0) 300 # map (\<lambda>k. min (d * 2 ^ Suc k) 300) [0..<n]"
      by (simp only: upt_conv_Cons [of 0 "Suc n"] map_Suc_upt [symmetric] list.map map_map o_def)
    then show ?thesis using d0 min_double [OF Suc.prems(2)] by simp
  qed
  show ?case
    unfolding run Suc.IH [OF sh pos] shift
    using min_double [OF Suc.prems(2), of n] by simp
qed

text \<open>
  C4. While the shutdown event is not set, the delays waited before the retries of
  \<open>n\<close> consecutive failed attempts are \<open>min (15 * 2 ^ k) 300\<close> for \<open>k = 0, ..., n - 1\<close>:
  15, 30, 60, 120, 240, 300, 300, and 300 from then on. A successful attempt sets the
  delay back to 15.
\<close>

theorem C4_backoff_sequence:
  "waits (fst (supervisor_run url name (concat (replicate n [AttemptDone Failed, DelayElapsed]))
                 (supervisor_start name (cog\<lparr>shutdown_event := False\<rparr>))))
     = map (\<lambda>k. min (15 * 2 ^ k) 300) [0..<n]
   \<and> waits (fst (supervisor_run url name (concat (replicate 7 [AttemptDone Failed, DelayElapsed]))
                 (supervisor_start name (cog\<lparr>shutdown_event := False\<rparr>))))
     = [15, 30, 60, 120, 240, 300, 300]
   \<and> min (15 * 2 ^ (5 + k)) (300::int) = 300
   \<and> reconnect_delay (fst (supervisor_step url name (AttemptDone (Listed tools_list))
                              (sv\<lparr>pc := Connecting\<rparr>, cog))) = 15"
proof -
  have start: "supervisor_start name (cog\<lparr>shutdown_event := False\<rparr>)
                 = (\<lparr>pc = Connecting, reconnect_delay = 15, waits = []\<rparr>, cog\<lparr>shutdown_event := False\<rparr>)"
    by (simp add: supervisor_start_def loop_head_def)
  have gen: "waits (fst (supervisor_run url name (concat (replicate m [AttemptDone Failed, DelayElapsed]))
                 (supervisor_start name (cog\<lparr>shutdown_event := False\<rparr>))))
     = map (\<lambda>k. min (15 * 2 ^ k) 300) [0..<m]" for m
    unfolding start
    using backoff_rounds [of "cog\<lparr>shutdown_event := False\<rparr>" 15 url name m "[]"]
    by simp
  have seven: "map (\<lambda>k. min (15 * 2 ^ k) (300::int)) [0..<7] = [15, 30, 60, 120, 240, 300, 300]"
    by (simp add: upt_rec)
  have cap: "min (15 * 2 ^ (5 + k)) (300::int) = 300"
  proof -
    define p :: int where "p = 2 ^ k"
    have "1 \<le> p" by (simp add: p_def)
    moreover have "(15::int) * 2 ^ (5 + k) = 480 * p" by (simp add: power_add p_def)
    ultimately show ?thesis by simp
  qed
  have reset: "reconnect_delay (fst (supervisor_step url name (AttemptDone (Listed tools_list))
                              (sv\<lparr>pc := Connecting\<rparr>, cog))) = 15"
    by (simp add: supervisor_step_def cleanup_and_wait_def loop_head_def Let_def)
  show ?thesis using gen [of n] gen [of 7] seven cap reset by simp
qed

text \<open>
  A supervisor suspended at line 203 goes on only when that wait returns or the task is
  cancelled; the router never sets the event the wait is on.
\<close>

lemma ready_blocked_without_shutdown:
  assumes "pc sv = Ready" "ev \<noteq> EventSet" "ev \<noteq> Cancelled"
  shows "supervisor_step url name ev (sv, cog) = (sv, cog)"
  using assms by (cases ev) (simp_all add: supervisor_step_def)

lemma execute_tool_keeps_event:
  "shutdown_event (snd (execute_tool repr invoke tool_name tool_input cog)) = shutdown_event cog"
proof -
  have "shutdown_event (snd (finish_tool repr tool_name s outcome cog)) = shutdown_event cog"
    for s outcome
    by (cases outcome) (simp_all add: finish_tool_def split: option.splits)
  then show ?thesis
    by (simp add: execute_tool_def split: sum.splits prod.splits)
qed

text \<open>
  C1 (the code departs from the claim). The supervisor of \<^verbatim>\<open>srv\<close> lists the tools and
  suspends at line 203, in a wait on the shutdown event alone. The router then evicts
  \<^verbatim>\<open>srv\<close> after a connection error and leaves the event unset, so that wait does not
  return: whatever else happens the supervisor stays suspended there, it does not go back
  to connecting, and the registry stays without \<^verbatim>\<open>srv\<close>. When the event is set at
  shutdown and the wait returns, the task ends.
\<close>

theorem C1_supervisor_blocked_after_eviction:
  "supervisor_run ''http://srv'' ''srv'' [AttemptDone (Listed (the (map_of (mcp_tools cog_one) ''srv'')))]
      (supervisor_start ''srv'' (cog_one\<lparr>mcp_connections := [], mcp_tools := []\<rparr>))
     = (sup_ready, cog_one)
   \<and> (let (r, cog1) = execute_tool repr invoke_fault ''getWeather'' (PDict []) cog_one
      in \<not> shutdown_event cog1 \<and> mcp_connections cog1 = [] \<and> mcp_tools cog1 = []
         \<and> supervisor_run ''http://srv'' ''srv''
              [DelayElapsed, AttemptDone Failed, AttemptDone (Listed []), DelayElapsed]
              (sup_ready, cog1)
            = (sup_ready, cog1)
         \<and> supervisor_step ''http://srv'' ''srv'' EventSet (sup_ready, cog_unload_signal cog1)
            = (sup_ready\<lparr>pc := Finished\<rparr>, cog_unload_signal cog1))"
  by (simp add: supervisor_start_def loop_head_def supervisor_step_def sup_ready_def cog_one_def
        dict_set_def dict_del_def execute_tool_def resolve_tool_def finish_tool_def
        invoke_fault_def has_tool_def cleanup_and_wait_def cleanup_def cog_unload_signal_def
        Let_def)

lemma keys_dict_set: "set (dict_keys (dict_set k v d)) = insert k (set (dict_keys d))"
  by (simp add: dict_keys_def dict_set_def dom_update [unfolded dom_map_of_conv_image_fst])

lemma keys_dict_del: "set (dict_keys (dict_del k d)) = set (dict_keys d) - {k}"
  by (auto simp: dict_keys_def dict_del_def AList.delete_eq)

lemma aligned_cleanup: "registry_aligned cog \<Longrightarrow> registry_aligned (cleanup name cog)"
  by (simp add: registry_aligned_def cleanup_def keys_dict_del)

lemma aligned_pc: "registry_aligned (cog\<lparr>shutdown_event := b\<rparr>) = registry_aligned cog"
  by (simp add: registry_aligned_def)

lemma aligned_loop_head:
  "registry_aligned cog \<Longrightarrow> registry_aligned (snd (loop_head name (sv, cog)))"
  by (simp add: loop_head_def aligned_cleanup)

lemma aligned_cleanup_and_wait:
  "registry_aligned cog \<Longrightarrow> registry_aligned (snd (cleanup_and_wait name (sv, cog)))"
  by (simp add: cleanup_and_wait_def Let_def aligned_cleanup aligned_loop_head)

lemma aligned_publish:
  "registry_aligned cog \<Longrightarrow>
   registry_aligned (cog\<lparr>mcp_connections := dict_set name c (mcp_connections cog),
                         mcp_tools := dict_set name ts (mcp_tools cog)\<rparr>)"
  by (simp add: registry_aligned_def keys_dict_set)

lemma aligned_supervisor_at:
  "registry_aligned cog \<Longrightarrow> registry_aligned (snd (supervisor_at url name p ev (sv, cog)))"
  by (induction url name p ev "(sv, cog)" rule: supervisor_at.induct)
     (simp_all add: Let_def aligned_cleanup aligned_loop_head aligned_cleanup_and_wait
        aligned_publish)

lemma aligned_finish_tool:
  "registry_aligned cog \<Longrightarrow>
   registry_aligned (snd (finish_tool repr tool_name server_name_found outcome cog))"
  by (cases outcome)
     (simp_all add: finish_tool_def registry_aligned_def keys_dict_del split: option.splits)

lemma aligned_execute_tool:
  "registry_aligned cog \<Longrightarrow>
   registry_aligned (snd (execute_tool repr invoke tool_name tool_input cog))"
  by (simp add: execute_tool_def aligned_finish_tool split: sum.splits prod.splits)

section \<open>Properties of the conversation engine\<close>

lemma map_of_dict_set: "map_of (dict_set k v d) c = (if c = k then Some v else map_of d c)"
  by (simp add: dict_set_def update_conv)


lemma finish_tool_frame:
  "message_history (snd (finish_tool repr tool_name s outcome cog)) = message_history cog
   \<and> system_message (snd (finish_tool repr tool_name s outcome cog)) = system_message cog
   \<and> llm_chat_params (snd (finish_tool repr tool_name s outcome cog)) = llm_chat_params cog
   \<and> max_history_length (snd (finish_tool repr tool_name s outcome cog)) = max_history_length cog"
  by (cases outcome) (simp_all add: finish_tool_def split: option.splits)

lemma execute_tool_frame:
  "message_history (snd (execute_tool repr invoke tool_name tool_input cog)) = message_history cog
   \<and> system_message (snd (execute_tool repr invoke tool_name tool_input cog)) = system_message cog
   \<and> llm_chat_params (snd (execute_tool repr invoke tool_name tool_input cog)) = llm_chat_params cog
   \<and> max_history_length (snd (execute_tool repr invoke tool_name tool_input cog)) = max_history_length cog"
  by (simp add: execute_tool_def finish_tool_frame split: sum.splits prod.splits)

lemma run_tool_calls_props:
  "run_tool_calls E tcs cog = (results, cog') \<Longrightarrow>
     length results = length tcs
     \<and> list_all (\<lambda>m. role m = Tool) results
     \<and> message_history cog' = message_history cog
     \<and> system_message cog' = system_message cog
     \<and> llm_chat_params cog' = llm_chat_params cog
     \<and> max_history_length cog' = max_history_length cog"
proof (induction tcs arbitrary: cog results cog')
  case Nil
  then show ?case by simp
next
  case (Cons tc tcs)
  show ?case
  proof (cases "case json_loads E (tc_arguments tc) of
                  Some (PDict kvs) \<Rightarrow> Some (PDict kvs) | _ \<Rightarrow> None")
    case None
    obtain rs c1 where r: "run_tool_calls E tcs cog = (rs, c1)" by (cases "run_tool_calls E tcs cog")
    from Cons.IH [OF r] Cons.prems None r show ?thesis
      by (auto simp: tool_entry_def)
  next
    case (Some tool_args)
    obtain obj cog1 where e: "execute_tool (env_repr E) (invoke_tool E) (tc_name tc) tool_args cog = (obj, cog1)"
      by (cases "execute_tool (env_repr E) (invoke_tool E) (tc_name tc) tool_args cog")
    obtain rs c1 where r: "run_tool_calls E tcs cog1 = (rs, c1)" by (cases "run_tool_calls E tcs cog1")
    from execute_tool_frame [of "env_repr E" "invoke_tool E" "tc_name tc" tool_args cog] e
    have fr: "message_history cog1 = message_history cog" "system_message cog1 = system_message cog"
       "llm_chat_params cog1 = llm_chat_params cog" "max_history_length cog1 = max_history_length cog"
      by simp_all
    from Cons.IH [OF r] Cons.prems Some e r fr show ?thesis
      by (auto simp: tool_entry_def)
  qed
qed

lemma follow_up_calls:
  "llm_calls (follow_up E channel_id user_id stream req1 results (h, cog))
     = [req1, \<lparr>messages = h @ results, user = str_int user_id,
               params = dict_del ''tool_choice''
                          (dict_del ''tools'' (dict_set ''stream'' (PBool stream) (llm_chat_params cog)))\<rparr>]
   \<and> tool_results (follow_up E channel_id user_id stream req1 results (h, cog)) = results"
  by (simp add: follow_up_def append_entries_def Let_def split: option.splits)

lemma dict_set_twice: "dict_set k v' (dict_set k v d) = dict_set k v' d"
  unfolding dict_set_def by (induction d) auto

lemma append_entries_eq:
  "append_entries channel_id entries (h, cog)
     = (h @ entries, cog\<lparr>message_history := dict_set channel_id (h @ entries) (message_history cog)\<rparr>)"
  by (simp add: append_entries_def)

lemma follow_up_final:
  "\<exists>tail. message_history (final (follow_up E channel_id user_id stream req1 results (h, cog)))
            = dict_set channel_id (h @ results @ tail) (message_history cog)
          \<and> (tail = [] \<or> (\<exists>text. tail = [plain_entry Assistant text]))"
proof -
  define req2 where "req2 = \<lparr>messages = h @ results, user = str_int user_id,
               params = dict_del ''tool_choice''
                          (dict_del ''tools'' (dict_set ''stream'' (PBool stream) (llm_chat_params cog)))\<rparr>"
  show ?thesis
  proof (cases "read_follow_up stream (llm_create E req2)")
    case None
    then have "message_history (final (follow_up E channel_id user_id stream req1 results (h, cog)))
            = dict_set channel_id (h @ results @ []) (message_history cog)"
      by (simp add: follow_up_def append_entries_eq Let_def req2_def)
    then show ?thesis by blast
  next
    case (Some ftext)
    show ?thesis
    proof (cases "blank ftext")
      case True
      with Some have "message_history (final (follow_up E channel_id user_id stream req1 results (h, cog)))
            = dict_set channel_id (h @ results @ []) (message_history cog)"
        by (simp add: follow_up_def append_entries_eq Let_def req2_def)
      then show ?thesis by blast
    next
      case False
      with Some have "message_history (final (follow_up E channel_id user_id stream req1 results (h, cog)))
            = dict_set channel_id (h @ results @ [plain_entry Assistant ftext]) (message_history cog)"
        by (simp add: follow_up_def append_entries_eq Let_def req2_def dict_set_twice)
      then show ?thesis by blast
    qed
  qed
qed

lemma follow_up_system:
  "system_message (final (follow_up E channel_id user_id stream req1 results (h, cog)))
     = system_message cog"
  by (simp add: follow_up_def append_entries_eq Let_def split: option.splits)

lemma after_initial_reply_calls:
  fixes E :: env and channel_id user_id :: int and stream :: bool and req1 :: llm_request
    and reply_text :: string and tcs :: "tool_call list" and h :: "message list" and cog :: MCPCog
  defines "t \<equiv> after_initial_reply E channel_id user_id stream req1 (reply_text, tcs) (h, cog)"
  shows "length (tool_results t) = length tcs"
    and "list_all (\<lambda>m. role m = Tool) (tool_results t)"
    and "tcs = [] \<Longrightarrow> llm_calls t = [req1]"
    and "tcs \<noteq> [] \<Longrightarrow>
           \<exists>a tail. role a = Assistant
             \<and> llm_calls t =
                 [req1, \<lparr>messages = h @ [a] @ tool_results t, user = str_int user_id,
                         params = dict_del ''tool_choice''
                            (dict_del ''tools''
                               (dict_set ''stream'' (PBool stream) (llm_chat_params cog)))\<rparr>]
             \<and> message_history (final t)
                 = dict_set channel_id (h @ [a] @ tool_results t @ tail) (message_history cog)
             \<and> (tail = [] \<or> (\<exists>ftext. tail = [plain_entry Assistant ftext]))"
proof -
  define a where "a = \<lparr>role = Assistant,
                msg_content = (if \<not> blank reply_text then Some reply_text else None),
                tool_calls = (if tcs \<noteq> [] then Some tcs else None),
                tool_call_id = None, msg_name = None\<rparr>"
  define cog_a where "cog_a = cog\<lparr>message_history := dict_set channel_id (h @ [a]) (message_history cog)\<rparr>"
  obtain results cog' where run: "run_tool_calls E tcs cog_a = (results, cog')"
    by (cases "run_tool_calls E tcs cog_a")
  note rp = run_tool_calls_props [OF run]
  have nil: "tcs = [] \<Longrightarrow> llm_calls t = [req1] \<and> tool_results t = []"
    by (simp add: t_def after_initial_reply_def Let_def append_entries_eq)
  have cons: "t = follow_up E channel_id user_id stream req1 results (h @ [a], cog')" if "tcs \<noteq> []"
  proof -
    from that rp have "results \<noteq> []" by auto
    with that run show ?thesis
      by (simp add: t_def after_initial_reply_def Let_def append_entries_eq a_def cog_a_def)
  qed
  have tr: "tcs \<noteq> [] \<Longrightarrow> tool_results t = results"
    using cons follow_up_calls [of E channel_id user_id stream req1 results "h @ [a]" cog'] by simp
  show "length (tool_results t) = length tcs"
    using nil tr rp by (cases "tcs = []") simp_all
  show "list_all (\<lambda>m. role m = Tool) (tool_results t)"
    using nil tr rp by (cases "tcs = []") simp_all
  show "tcs = [] \<Longrightarrow> llm_calls t = [req1]" using nil by simp
  show "\<exists>a tail. role a = Assistant
             \<and> llm_calls t =
                 [req1, \<lparr>messages = h @ [a] @ tool_results t, user = str_int user_id,
                         params = dict_del ''tool_choice''
                            (dict_del ''tools''
                               (dict_set ''stream'' (PBool stream) (llm_chat_params cog)))\<rparr>]
             \<and> message_history (final t)
                 = dict_set channel_id (h @ [a] @ tool_results t @ tail) (message_history cog)
             \<and> (tail = [] \<or> (\<exists>ftext. tail = [plain_entry Assistant ftext]))"
    if ne: "tcs \<noteq> []"
  proof -
    have params: "llm_chat_params cog' = llm_chat_params cog"
      using rp by (simp add: cog_a_def)
    have mh: "message_history cog' = dict_set channel_id (h @ [a]) (message_history cog)"
      using rp by (simp add: cog_a_def)
    from follow_up_final [of E channel_id user_id stream req1 results "h @ [a]" cog']
    obtain tail where tail:
      "message_history (final t) = dict_set channel_id ((h @ [a]) @ results @ tail) (message_history cog')"
      "tail = [] \<or> (\<exists>ftext. tail = [plain_entry Assistant ftext])"
      using cons [OF ne] by auto
    have "role a = Assistant" by (simp add: a_def)
    moreover have "llm_calls t =
                 [req1, \<lparr>messages = h @ [a] @ tool_results t, user = str_int user_id,
                         params = dict_del ''tool_choice''
                            (dict_del ''tools''
                               (dict_set ''stream'' (PBool stream) (llm_chat_params cog)))\<rparr>]"
      using cons [OF ne] follow_up_calls [of E channel_id user_id stream req1 results "h @ [a]" cog']
        params tr [OF ne] by simp
    moreover have "message_history (final t)
                 = dict_set channel_id (h @ [a] @ tool_results t @ tail) (message_history cog)"
      using tail(1) mh tr [OF ne] by (simp add: dict_set_twice)
    ultimately show ?thesis using tail(2) by blast
  qed
qed

lemma after_initial_reply_history:
  fixes E :: env and channel_id user_id :: int and stream :: bool and req1 :: llm_request
    and reply :: "string \<times> tool_call list" and h :: "message list" and cog :: MCPCog
  defines "t \<equiv> after_initial_reply E channel_id user_id stream req1 reply (h, cog)"
  shows "\<exists>new. list_all (\<lambda>m. role m \<noteq> System) new
           \<and> (message_history (final t) = message_history cog
              \<or> message_history (final t) = dict_set channel_id (h @ new) (message_history cog))"
    and "system_message (final t) = system_message cog"
proof -
  obtain reply_text tcs where reply: "reply = (reply_text, tcs)" by (cases reply)
  define a where "a = \<lparr>role = Assistant,
                msg_content = (if \<not> blank reply_text then Some reply_text else None),
                tool_calls = (if tcs \<noteq> [] then Some tcs else None),
                tool_call_id = None, msg_name = None\<rparr>"
  define cog_a where "cog_a = cog\<lparr>message_history := dict_set channel_id (h @ [a]) (message_history cog)\<rparr>"
  obtain results cog' where run: "run_tool_calls E tcs cog_a = (results, cog')"
    by (cases "run_tool_calls E tcs cog_a")
  note rp = run_tool_calls_props [OF run]
  have sys: "system_message cog' = system_message cog" using rp by (simp add: cog_a_def)
  show "system_message (final t) = system_message cog"
    using run sys follow_up_system [of E channel_id user_id stream req1 results "h @ [a]" cog']
    by (simp add: t_def reply after_initial_reply_def Let_def append_entries_eq
          a_def [symmetric] cog_a_def [symmetric])
       (simp add: cog_a_def)
  show "\<exists>new. list_all (\<lambda>m. role m \<noteq> System) new
           \<and> (message_history (final t) = message_history cog
              \<or> message_history (final t) = dict_set channel_id (h @ new) (message_history cog))"
  proof (cases "tcs = []")
    case True
    show ?thesis
    proof (cases "blank reply_text")
      case True
      with \<open>tcs = []\<close> have "message_history (final t) = message_history cog"
        by (simp add: t_def reply after_initial_reply_def)
      then show ?thesis by (intro exI [of _ "[]"]) simp
    next
      case False
      with \<open>tcs = []\<close> have "message_history (final t)
                = dict_set channel_id (h @ [a]) (message_history cog)"
        by (simp add: t_def reply after_initial_reply_def Let_def append_entries_eq a_def)
      moreover have "list_all (\<lambda>m. role m \<noteq> System) [a]" by (simp add: a_def)
      ultimately show ?thesis by blast
    qed
  next
    case False
    from after_initial_reply_calls(4) [OF False, of E channel_id user_id stream req1 reply_text h cog]
    obtain a' tail where c:
      "role a' = Assistant"
      "message_history (final t)
         = dict_set channel_id (h @ [a'] @ tool_results t @ tail) (message_history cog)"
      "tail = [] \<or> (\<exists>ftext. tail = [plain_entry Assistant ftext])"
      unfolding t_def reply by blast
    have "list_all (\<lambda>m. role m = Tool) (tool_results t)"
      unfolding t_def reply by (rule after_initial_reply_calls(2))
    then have "list_all (\<lambda>m. role m \<noteq> System) (tool_results t)"
      by (simp add: list_all_iff)
    with c(1,3) have "list_all (\<lambda>m. role m \<noteq> System) ([a'] @ tool_results t @ tail)"
      by (auto simp: plain_entry_def)
    with c(2) show ?thesis by blast
  qed
qed

lemma list_all_dict_set:
  "list_all P d \<Longrightarrow> P (k, v) \<Longrightarrow> list_all P (dict_set k v d)"
  unfolding dict_set_def by (induction d) auto

lemma history_ok_lookup:
  "history_ok cog \<Longrightarrow> map_of (message_history cog) c = Some h \<Longrightarrow>
   h \<noteq> [] \<and> hd h = system_entry (system_message cog)"
  by (auto simp: history_ok_def list_all_iff dest!: map_of_SomeD)

lemma get_channel_history_new:
  "map_of (message_history cog) channel_id = None \<Longrightarrow>
   get_channel_history channel_id cog
     = Inr ([system_entry (system_message cog)],
            cog\<lparr>message_history :=
                  dict_set channel_id [system_entry (system_message cog)] (message_history cog)\<rparr>)"
  by (simp add: get_channel_history_def Let_def)

lemma dict_set_same: "map_of d k = Some v \<Longrightarrow> dict_set k v d = d"
  unfolding dict_set_def by (induction d) (auto split: if_splits)

lemma get_channel_history_old:
  assumes "map_of (message_history cog) channel_id = Some old" "old \<noteq> []"
  shows "\<exists>k. get_channel_history channel_id cog
           = Inr (hd old # drop k (tl old),
                  cog\<lparr>message_history :=
                        dict_set channel_id (hd old # drop k (tl old)) (message_history cog)\<rparr>)"
proof -
  obtain x xs where old: "old = x # xs" using assms(2) by (cases old) auto
  have same: "cog\<lparr>message_history := dict_set channel_id old (message_history cog)\<rparr> = cog"
  proof -
    have "dict_set channel_id old (message_history cog) = message_history cog"
      using assms(1) by (rule dict_set_same)
    then show ?thesis by simp
  qed
  show ?thesis
  proof (cases "int (length old) > max_history_length cog + 1")
    case False
    then have "get_channel_history channel_id cog = Inr (old, cog)"
      using assms(1) by (simp add: get_channel_history_def Let_def)
    then have "get_channel_history channel_id cog
           = Inr (hd old # drop 0 (tl old),
                  cog\<lparr>message_history :=
                        dict_set channel_id (hd old # drop 0 (tl old)) (message_history cog)\<rparr>)"
      using same old by simp
    then show ?thesis by blast
  next
    case True
    define amount where "amount = int (length old) - (max_history_length cog + 1)"
    have pos: "0 < amount" using True by (simp add: amount_def)
    then have "nat (amount + 1) = Suc (nat amount)" by simp
    then have "drop (nat (amount + 1)) old = drop (nat amount) xs" by (simp add: old)
    then have "get_channel_history channel_id cog
           = Inr (hd old # drop (nat amount) (tl old),
                  cog\<lparr>message_history :=
                        dict_set channel_id (hd old # drop (nat amount) (tl old)) (message_history cog)\<rparr>)"
      using assms(1) True
      by (simp add: get_channel_history_def Let_def old amount_def)
    then show ?thesis by blast
  qed
qed

lemma handle_chat_logic_unfold:
  assumes "get_channel_history channel_id cog = Inr (h0, cog0)"
    and "hu = h0 @ [plain_entry User message]"
    and "cog1 = cog0\<lparr>message_history := dict_set channel_id hu (message_history cog0)\<rparr>"
    and "req1 = \<lparr>messages = hu, user = str_int user_id,
                     params = (if format_tools_for_openai cog1 \<noteq> []
                               then dict_set ''tool_choice'' (PStr ''auto'')
                                      (dict_set ''tools'' (PList (format_tools_for_openai cog1))
                                         (dict_set ''stream'' (PBool stream) (llm_chat_params cog1)))
                               else dict_set ''stream'' (PBool stream) (llm_chat_params cog1))\<rparr>"
  shows "handle_chat_logic E message channel_id user_id stream cog
           = (case read_initial_reply stream (llm_create E req1) of
                None \<Rightarrow> \<lparr>llm_calls = [req1], tool_results = [], final = cog1\<rparr>
              | Some reply \<Rightarrow>
                  after_initial_reply E channel_id user_id stream req1 reply (hu, cog1))"
  unfolding assms(2-4) handle_chat_logic_def assms(1)
  by (simp add: append_entries_eq Let_def)


lemmas turn_eval_defs =
  handle_chat_logic_def get_channel_history_def append_entries_def after_initial_reply_def
  follow_up_def format_tools_for_openai_def openai_tool_def env_example_def cog_one_def
  execute_tool_def resolve_tool_def finish_tool_def has_tool_def message_tool_calls_def
  or_empty_def blank_def is_space_def dict_set_def dict_del_def dict_keys_def Let_def



lemma handle_chat_logic_history:
  assumes get: "get_channel_history channel_id cog
                  = Inr (h0, cog\<lparr>message_history := dict_set channel_id h0 (message_history cog)\<rparr>)"
  shows "\<exists>new. message_history (final (handle_chat_logic E message channel_id user_id stream cog))
                 = dict_set channel_id (h0 @ new) (message_history cog)
               \<and> list_all (\<lambda>m. role m \<noteq> System) new
               \<and> system_message (final (handle_chat_logic E message channel_id user_id stream cog))
                   = system_message cog"
proof -
  define cog0 where "cog0 = cog\<lparr>message_history := dict_set channel_id h0 (message_history cog)\<rparr>"
  define u where "u = plain_entry User message"
  define hu where "hu = h0 @ [plain_entry User message]"
  define cog1 where "cog1 = cog0\<lparr>message_history := dict_set channel_id hu (message_history cog0)\<rparr>"
  define req1 where "req1 = \<lparr>messages = hu, user = str_int user_id,
                     params = (if format_tools_for_openai cog1 \<noteq> []
                               then dict_set ''tool_choice'' (PStr ''auto'')
                                      (dict_set ''tools'' (PList (format_tools_for_openai cog1))
                                         (dict_set ''stream'' (PBool stream) (llm_chat_params cog1)))
                               else dict_set ''stream'' (PBool stream) (llm_chat_params cog1))\<rparr>"
  define t where "t = handle_chat_logic E message channel_id user_id stream cog"
  note unf = handle_chat_logic_unfold [OF get [folded cog0_def] hu_def cog1_def req1_def,
      of E, folded t_def]
  have mh1: "message_history cog1 = dict_set channel_id (h0 @ [u]) (message_history cog)"
    by (simp add: cog1_def cog0_def hu_def u_def dict_set_twice)
  have sm1: "system_message cog1 = system_message cog"
    by (simp add: cog1_def cog0_def)
  have ru: "list_all (\<lambda>m. role m \<noteq> System) [u]" by (simp add: u_def plain_entry_def)
  have "\<exists>new. message_history (final t) = dict_set channel_id (h0 @ new) (message_history cog)
               \<and> list_all (\<lambda>m. role m \<noteq> System) new
               \<and> system_message (final t) = system_message cog"
  proof (cases "read_initial_reply stream (llm_create E req1)")
    case None
    then have "final t = cog1" using unf by simp
    then show ?thesis using mh1 sm1 ru by blast
  next
    case (Some reply)
    then have t: "t = after_initial_reply E channel_id user_id stream req1 reply (hu, cog1)"
      using unf by simp
    from after_initial_reply_history
           [where E = E and channel_id = channel_id and user_id = user_id and stream = stream
              and ?req1.0 = req1 and reply = reply and h = hu and cog = cog1, folded t]
    obtain new where new: "list_all (\<lambda>m. role m \<noteq> System) new"
        "message_history (final t) = message_history cog1
         \<or> message_history (final t) = dict_set channel_id (hu @ new) (message_history cog1)"
      and sm: "system_message (final t) = system_message cog1"
      by blast
    from new(2) show ?thesis
    proof
      assume "message_history (final t) = message_history cog1"
      then show ?thesis using mh1 sm sm1 ru by auto
    next
      assume "message_history (final t) = dict_set channel_id (hu @ new) (message_history cog1)"
      then have "message_history (final t)
                   = dict_set channel_id (h0 @ (u # new)) (message_history cog)"
        by (simp add: mh1 hu_def u_def dict_set_twice)
      moreover have "list_all (\<lambda>m. role m \<noteq> System) (u # new)" using new(1) ru by simp
      ultimately show ?thesis using sm sm1 by metis
    qed
  qed
  then show ?thesis by (simp add: t_def)
qed

lemma history_ok_dict_set:
  assumes "history_ok cog" "h \<noteq> []" "hd h = system_entry (system_message cog)"
    and "message_history cog' = dict_set channel_id h (message_history cog)"
    and "system_message cog' = system_message cog"
  shows "history_ok cog'"
  using assms by (simp add: history_ok_def list_all_dict_set)

text \<open>
  C9. From a cog whose histories all start with the system message: a read of the
  channel's history returns and stores the system message followed by a suffix of the
  other entries (lazy initialisation gives the system message alone); a whole turn leaves
  the channel with that list followed by entries of role user, assistant or tool; no
  other channel changes; and every history still starts with the system message.
\<close>

theorem C9_history_invariant:
  assumes "history_ok cog"
  shows "(let t = handle_chat_logic E message channel_id user_id stream cog;
              old = (case map_of (message_history cog) channel_id of
                       Some h \<Rightarrow> h | None \<Rightarrow> [system_entry (system_message cog)])
          in hd old = system_entry (system_message cog)
             \<and> (\<exists>k cog0.
                   get_channel_history channel_id cog = Inr (hd old # drop k (tl old), cog0)
                   \<and> map_of (message_history cog0) channel_id = Some (hd old # drop k (tl old))
                   \<and> (\<forall>c. c \<noteq> channel_id \<longrightarrow>
                          map_of (message_history cog0) c = map_of (message_history cog) c)
                   \<and> history_ok cog0)
             \<and> (\<exists>k new.
                   map_of (message_history (final t)) channel_id
                     = Some (hd old # drop k (tl old) @ new)
                   \<and> list_all (\<lambda>m. role m \<noteq> System) new)
             \<and> (\<forall>c. c \<noteq> channel_id \<longrightarrow>
                    map_of (message_history (final t)) c = map_of (message_history cog) c)
             \<and> history_ok (final t))"
proof -
  define old where "old = (case map_of (message_history cog) channel_id of
                       Some h \<Rightarrow> h | None \<Rightarrow> [system_entry (system_message cog)])"
  define t where "t = handle_chat_logic E message channel_id user_id stream cog"
  have old: "old \<noteq> []" "hd old = system_entry (system_message cog)"
    using history_ok_lookup [OF assms, of channel_id]
    by (auto simp: old_def split: option.splits)
  have "\<exists>k. get_channel_history channel_id cog
           = Inr (hd old # drop k (tl old),
                  cog\<lparr>message_history :=
                        dict_set channel_id (hd old # drop k (tl old)) (message_history cog)\<rparr>)"
  proof (cases "map_of (message_history cog) channel_id")
    case None
    then have "old = [system_entry (system_message cog)]" by (simp add: old_def)
    then have "get_channel_history channel_id cog
           = Inr (hd old # drop 0 (tl old),
                  cog\<lparr>message_history :=
                        dict_set channel_id (hd old # drop 0 (tl old)) (message_history cog)\<rparr>)"
      using get_channel_history_new [OF None] by simp
    then show ?thesis by blast
  next
    case (Some h)
    then have "old = h" by (simp add: old_def)
    then show ?thesis using get_channel_history_old [OF Some] old(1) by simp
  qed
  then obtain k where get: "get_channel_history channel_id cog
           = Inr (hd old # drop k (tl old),
                  cog\<lparr>message_history :=
                        dict_set channel_id (hd old # drop k (tl old)) (message_history cog)\<rparr>)"
    by blast
  define h0 where "h0 = hd old # drop k (tl old)"
  define cog0 where "cog0 = cog\<lparr>message_history := dict_set channel_id h0 (message_history cog)\<rparr>"
  have ok0: "history_ok cog0"
    using assms old(2) by (intro history_ok_dict_set [of cog h0 cog0 channel_id]) (simp_all add: cog0_def h0_def)
  have read: "\<exists>k cog0.
                   get_channel_history channel_id cog = Inr (hd old # drop k (tl old), cog0)
                   \<and> map_of (message_history cog0) channel_id = Some (hd old # drop k (tl old))
                   \<and> (\<forall>c. c \<noteq> channel_id \<longrightarrow>
                          map_of (message_history cog0) c = map_of (message_history cog) c)
                   \<and> history_ok cog0"
    using get ok0 unfolding cog0_def h0_def
    by (intro exI [of _ k] exI [of _ "cog\<lparr>message_history :=
                        dict_set channel_id (hd old # drop k (tl old)) (message_history cog)\<rparr>"])
       (simp add: map_of_dict_set)
  from handle_chat_logic_history [OF get [folded h0_def], of E message user_id stream, folded t_def]
  obtain new where new:
    "message_history (final t) = dict_set channel_id (h0 @ new) (message_history cog)"
    "list_all (\<lambda>m. role m \<noteq> System) new"
    "system_message (final t) = system_message cog"
    by blast
  have fin: "map_of (message_history (final t)) channel_id = Some (hd old # drop k (tl old) @ new)"
    using new(1) by (simp add: map_of_dict_set h0_def)
  have others: "\<forall>c. c \<noteq> channel_id \<longrightarrow>
                    map_of (message_history (final t)) c = map_of (message_history cog) c"
    using new(1) by (simp add: map_of_dict_set)
  have okf: "history_ok (final t)"
    using assms old(2) new(1,3)
    by (intro history_ok_dict_set [of cog "h0 @ new" "final t" channel_id]) (simp_all add: h0_def)
  have "hd old = system_entry (system_message cog)
             \<and> (\<exists>k cog0.
                   get_channel_history channel_id cog = Inr (hd old # drop k (tl old), cog0)
                   \<and> map_of (message_history cog0) channel_id = Some (hd old # drop k (tl old))
                   \<and> (\<forall>c. c \<noteq> channel_id \<longrightarrow>
                          map_of (message_history cog0) c = map_of (message_history cog) c)
                   \<and> history_ok cog0)
             \<and> (\<exists>k new.
                   map_of (message_history (final t)) channel_id
                     = Some (hd old # drop k (tl old) @ new)
                   \<and> list_all (\<lambda>m. role m \<noteq> System) new)
             \<and> (\<forall>c. c \<noteq> channel_id \<longrightarrow>
                    map_of (message_history (final t)) c = map_of (message_history cog) c)
             \<and> history_ok (final t)"
    using old(2) read fin new(2) others okf by blast
  then show ?thesis unfolding Let_def old_def t_def .
qed

lemma history_ok_cog_six: "history_ok cog_six"
  by (simp add: history_ok_def cog_six_def cog_one_def system_entry_def)

lemma example_turn_history:
  "map_of (message_history (final (handle_chat_logic env_example ''hi'' 1 7 False cog_six))) 1
     = Some [system_entry ''sys'', plain_entry Assistant ''a2'', plain_entry User ''u3'',
             plain_entry User ''hi'',
             \<lparr>role = Assistant, msg_content = None,
              tool_calls = Some [\<lparr>tc_id = Some ''a'', tc_type = ''function'',
                                  tc_name = ''getWeather'', tc_arguments = ''{}''\<rparr>],
              tool_call_id = None, msg_name = None\<rparr>,
             tool_entry (Some ''a'') ''getWeather'' ''sunny'',
             plain_entry Assistant ''Sunny.'']"
  by (simp add: turn_eval_defs cog_six_def)

theorem C9_history_invariant_witness:
  "history_ok cog_six
   \<and> history_ok (final (handle_chat_logic env_example ''hi'' 1 7 False cog_six))
   \<and> map_of (message_history (final (handle_chat_logic env_example ''hi'' 1 7 False cog_six))) 1
     = Some [system_entry ''sys'', plain_entry Assistant ''a2'', plain_entry User ''u3'',
             plain_entry User ''hi'',
             \<lparr>role = Assistant, msg_content = None,
              tool_calls = Some [\<lparr>tc_id = Some ''a'', tc_type = ''function'',
                                  tc_name = ''getWeather'', tc_arguments = ''{}''\<rparr>],
              tool_call_id = None, msg_name = None\<rparr>,
             tool_entry (Some ''a'') ''getWeather'' ''sunny'',
             plain_entry Assistant ''Sunny.'']"
  using C9_history_invariant [OF history_ok_cog_six, of env_example "''hi''" 1 7 False]
    history_ok_cog_six example_turn_history
  unfolding Let_def by blast

lemma aligned_history_update:
  "registry_aligned (cog\<lparr>message_history := m\<rparr>) = registry_aligned cog"
  by (simp add: registry_aligned_def)

lemma aligned_run_tool_calls:
  "registry_aligned cog \<Longrightarrow> registry_aligned (snd (run_tool_calls E tcs cog))"
proof (induction tcs arbitrary: cog)
  case Nil
  then show ?case by simp
next
  case (Cons tc tcs)
  show ?case
  proof (cases "case json_loads E (tc_arguments tc) of
                  Some (PDict kvs) \<Rightarrow> Some (PDict kvs) | _ \<Rightarrow> None")
    case None
    then show ?thesis using Cons.IH [OF Cons.prems] by (auto split: prod.splits)
  next
    case (Some tool_args)
    have "registry_aligned
            (snd (execute_tool (env_repr E) (invoke_tool E) (tc_name tc) tool_args cog))"
      using Cons.prems by (rule aligned_execute_tool)
    from Cons.IH [OF this] Some show ?thesis by (auto split: prod.splits)
  qed
qed

lemma aligned_follow_up:
  "registry_aligned cog \<Longrightarrow>
   registry_aligned (final (follow_up E channel_id user_id stream req1 results (h, cog)))"
  by (simp add: follow_up_def append_entries_eq Let_def aligned_history_update split: option.splits)

lemma aligned_after_initial_reply:
  assumes "registry_aligned cog"
  shows "registry_aligned (final (after_initial_reply E channel_id user_id stream req1 reply (h, cog)))"
proof -
  obtain reply_text tcs where reply: "reply = (reply_text, tcs)" by (cases reply)
  define a where "a = \<lparr>role = Assistant,
                msg_content = (if \<not> blank reply_text then Some reply_text else None),
                tool_calls = (if tcs \<noteq> [] then Some tcs else None),
                tool_call_id = None, msg_name = None\<rparr>"
  define cog_a where "cog_a = cog\<lparr>message_history := dict_set channel_id (h @ [a]) (message_history cog)\<rparr>"
  obtain results cog' where run: "run_tool_calls E tcs cog_a = (results, cog')"
    by (cases "run_tool_calls E tcs cog_a")
  have al_a: "registry_aligned cog_a" using assms by (simp add: cog_a_def aligned_history_update)
  have al': "registry_aligned cog'" using aligned_run_tool_calls [OF al_a, of E tcs] run by simp
  have fu: "registry_aligned (final (follow_up E channel_id user_id stream req1 results (h @ [a], cog')))"
    using al' by (rule aligned_follow_up)
  show ?thesis
    using assms al_a al' fu run
    by (simp add: reply after_initial_reply_def Let_def append_entries_eq
          a_def [symmetric] cog_a_def [symmetric])
qed

lemma aligned_get_channel_history:
  "get_channel_history channel_id cog = Inr (h0, cog0) \<Longrightarrow>
   registry_aligned cog0 = registry_aligned cog"
  by (auto simp: get_channel_history_def Let_def registry_aligned_def
        split: option.splits if_splits list.splits)

lemma aligned_handle_chat_logic:
  assumes "registry_aligned cog"
  shows "registry_aligned (final (handle_chat_logic E message channel_id user_id stream cog))"
proof (cases "get_channel_history channel_id cog")
  case (Inl e)
  then show ?thesis using assms by (simp add: handle_chat_logic_def)
next
  case (Inr st0)
  obtain h0 cog0 where st0: "st0 = (h0, cog0)" by (cases st0)
  have "registry_aligned cog0"
    using aligned_get_channel_history [OF Inr [unfolded st0]] assms by simp
  then have a1: "registry_aligned (cog0\<lparr>message_history := m\<rparr>)" for m
    by (simp add: aligned_history_update)
  show ?thesis
    using a1 aligned_after_initial_reply [OF a1]
    by (simp add: handle_chat_logic_unfold [OF Inr [unfolded st0] refl refl refl]
          split: option.splits)
qed

section \<open>The registry invariant\<close>

text \<open>
  C10. Every step between two suspension points keeps the servers with a connection equal
  to the servers with a tool list: the start and every step of a supervisor (publish,
  cleanup, final cleanup), the router before and after its \<^verbatim>\<open>await\<close> (eviction included),
  a whole turn of the conversation engine, and both halves of \<^verbatim>\<open>cog_unload\<close>; the empty
  registry has the property.
\<close>

theorem C10_registry_aligned_preserved:
  assumes "registry_aligned cog"
  shows "registry_aligned (snd (supervisor_start name cog))
       \<and> registry_aligned (snd (supervisor_step url name ev (sv, cog)))
       \<and> registry_aligned (snd (finish_tool repr tool_name server_name_found outcome cog))
       \<and> registry_aligned (snd (execute_tool repr invoke tool_name tool_input cog))
       \<and> registry_aligned (final (handle_chat_logic E message channel_id user_id stream cog))
       \<and> registry_aligned (cog_unload_signal cog)
       \<and> registry_aligned (cog_unload_clear cog)
       \<and> registry_aligned (cog\<lparr>mcp_connections := [], mcp_tools := []\<rparr>)"
  using assms
  by (simp add: supervisor_start_def supervisor_step_def aligned_loop_head aligned_supervisor_at
        aligned_finish_tool aligned_execute_tool aligned_handle_chat_logic cog_unload_signal_def cog_unload_clear_def
        aligned_pc)
     (simp add: registry_aligned_def dict_keys_def)

lemma aligned_cog_one: "registry_aligned cog_one"
  by (simp add: registry_aligned_def cog_one_def dict_keys_def)

theorem C10_registry_aligned_preserved_witness:
  "registry_aligned cog_one
   \<and> registry_aligned (snd (supervisor_step ''http://srv'' ''srv'' Cancelled (sup_ready, cog_one)))
   \<and> registry_aligned
        (snd (execute_tool (\<lambda>v. '''') invoke_fault ''getWeather'' (PDict []) cog_one))
   \<and> registry_aligned (cog_unload_clear cog_one)"
  using C10_registry_aligned_preserved [OF aligned_cog_one] aligned_cog_one
  by simp

end
